theory Spec2Isabelle
  imports Main "HOL-Library.Word"
begin

section \<open>JavaScript strings\<close>

text \<open>
  A JavaScript string is a sequence of 16-bit code units; \<open>length\<close> counts code units,
  as \<open>value.length\<close> does.  Literals of the source are written \<open>js ''...''\<close>.
\<close>

type_synonym js_string = "16 word list"

definition js :: "string \<Rightarrow> js_string" where
  "js s = map of_char s"

text \<open>The character class \<open>[a-zA-Z]\<close>.\<close>

definition is_letter :: "16 word \<Rightarrow> bool" where
  "is_letter c = ((65 \<le> c \<and> c \<le> 90) \<or> (97 \<le> c \<and> c \<le> 122))"

text \<open>
  The class \<open>\s\<close> of a regular expression, which is also what \<open>String.prototype.trim\<close>
  strips: TAB, LF, VT, FF, CR, SP, NBSP, U+1680, U+2000..U+200A, LS, PS, U+202F, U+205F,
  U+3000 and U+FEFF.
\<close>

definition is_whitespace :: "16 word \<Rightarrow> bool" where
  "is_whitespace c =
     (c = 9 \<or> c = 10 \<or> c = 11 \<or> c = 12 \<or> c = 13 \<or> c = 32 \<or> c = 160 \<or> c = 5760
      \<or> (8192 \<le> c \<and> c \<le> 8202) \<or> c = 8232 \<or> c = 8233 \<or> c = 8239 \<or> c = 8287
      \<or> c = 12288 \<or> c = 65279)"

text \<open>\<open>s.trim()\<close>: whitespace removed at both ends.\<close>

definition trim :: "js_string \<Rightarrow> js_string" where
  "trim s = rev (dropWhile is_whitespace (rev (dropWhile is_whitespace s)))"

text \<open>\<open>xs.join(sep)\<close> on an array of strings.\<close>

fun join :: "js_string \<Rightarrow> js_string list \<Rightarrow> js_string" where
  "join sep [] = []"
| "join sep [x] = x"
| "join sep (x # y # ys) = x @ sep @ join sep (y # ys)"

text \<open>A natural number interpolated into a template string: its decimal digits.\<close>

fun number_toString :: "nat \<Rightarrow> js_string" where
  "number_toString n =
     (if n < 10 then [of_nat (48 + n)]
      else number_toString (n div 10) @ [of_nat (48 + n mod 10)])"

text \<open>The number that a string of decimal digits stands for.\<close>

definition digits_value :: "js_string \<Rightarrow> nat" where
  "digits_value s = foldl (\<lambda>acc c. 10 * acc + (unat c - 48)) 0 s"

text \<open>A string in a condition is true when it is not empty.\<close>

definition truthy :: "js_string \<Rightarrow> bool" where
  "truthy s = (s \<noteq> [])"

section \<open>The allergy form (allergyForm/page.tsx)\<close>

record AllergyField =
  field_id :: js_string
  field_value :: js_string
  field_error :: js_string

record FormData =
  name :: js_string
  email :: js_string
  emergencyContact :: js_string

record FormErrors =
  name_error :: js_string
  email_error :: js_string
  emergencyContact_error :: js_string
  allergies_error :: js_string

record UserProfile =
  profile_name :: js_string
  profile_email :: js_string
  profile_emergencyContact :: js_string
  profile_allergies :: "js_string list"
  profile_submittedAt :: "js_string option"

text \<open>
  The state of the form component, with the two things it shares with the rest of the
  application: the profile held by the context and the route the router was last pushed to.
\<close>

record AllergyForm =
  formData :: FormData
  allergyFields :: "AllergyField list"
  formErrors :: FormErrors
  isSubmitting :: bool
  userProfile :: "UserProfile option"
  pushed :: "js_string option"

text \<open>\<open>/^[a-zA-Z\s]+$/.test(value)\<close>\<close>

definition lettersAndSpacesOnly :: "js_string \<Rightarrow> bool" where
  "lettersAndSpacesOnly v = (v \<noteq> [] \<and> list_all (\<lambda>c. is_letter c \<or> is_whitespace c) v)"

definition validateAllergyInput :: "js_string \<Rightarrow> js_string" where
  "validateAllergyInput v =
     (if \<not> truthy (trim v) then js ''This field is required''
      else if \<not> lettersAndSpacesOnly v then js ''Only letters and spaces are allowed''
      else if length v < 2 then js ''Allergy name must be at least 2 characters long''
      else js '''')"

definition validateName :: "js_string \<Rightarrow> js_string" where
  "validateName v =
     (if \<not> truthy (trim v) then js ''Name is required''
      else if \<not> lettersAndSpacesOnly v then js ''Only letters and spaces are allowed''
      else js '''')"

text \<open>
  \<open>/^[^\s@]+@[^\s@]+\.[^\s@]+$/.test(value)\<close>: the longest prefix free of whitespace and
  \<open>@\<close> is the local part, an \<open>@\<close> follows it, and the rest is free of whitespace and
  \<open>@\<close> and has a dot that is neither its first nor its last character.
\<close>

definition email_atom :: "16 word \<Rightarrow> bool" where
  "email_atom c = (\<not> is_whitespace c \<and> c \<noteq> 64)"

definition emailRegex :: "js_string \<Rightarrow> bool" where
  "emailRegex v =
     (takeWhile email_atom v \<noteq> [] \<and>
      (case dropWhile email_atom v of
         [] \<Rightarrow> False
       | c # d \<Rightarrow> c = 64 \<and> list_all email_atom d \<and>
                  list_ex (\<lambda>i. d ! i = 46) [1 ..< length d - 1]))"

definition validateEmail :: "js_string \<Rightarrow> js_string" where
  "validateEmail v =
     (if \<not> truthy (trim v) then js ''Email is required''
      else if \<not> emailRegex v then js ''Please enter a valid email address''
      else js '''')"

text \<open>The initial list of fields: one per allergy of the stored profile, or one blank field.\<close>

definition initialAllergyFields :: "UserProfile option \<Rightarrow> AllergyField list" where
  "initialAllergyFields p =
     (case p of
        None \<Rightarrow> [\<lparr>field_id = js ''1'', field_value = js '''', field_error = js ''''\<rparr>]
      | Some u \<Rightarrow>
          if length (profile_allergies u) > 0
          then map (\<lambda>(index, allergy).
                  \<lparr>field_id = number_toString (index + 1), field_value = allergy, field_error = js ''''\<rparr>)
                 (zip [0 ..< length (profile_allergies u)] (profile_allergies u))
          else [\<lparr>field_id = js ''1'', field_value = js '''', field_error = js ''''\<rparr>])"

definition handleAllergyChange :: "js_string \<Rightarrow> js_string \<Rightarrow> AllergyForm \<Rightarrow> AllergyForm" where
  "handleAllergyChange i v st =
     (let error = validateAllergyInput v
      in st\<lparr>allergyFields :=
              map (\<lambda>field. if field_id field = i
                            then field\<lparr>field_value := v, field_error := error\<rparr>
                            else field)
                  (allergyFields st)\<rparr>)"

text \<open>\<open>newId\<close> is the identifier that \<open>crypto.randomUUID()\<close> returns.\<close>

definition addAllergyField :: "js_string \<Rightarrow> AllergyForm \<Rightarrow> AllergyForm" where
  "addAllergyField newId st =
     st\<lparr>allergyFields :=
          allergyFields st @ [\<lparr>field_id = newId, field_value = js '''', field_error = js ''''\<rparr>]\<rparr>"

definition removeAllergyField :: "js_string \<Rightarrow> AllergyForm \<Rightarrow> AllergyForm" where
  "removeAllergyField i st =
     (if length (allergyFields st) > 1
      then st\<lparr>allergyFields := filter (\<lambda>field. field_id field \<noteq> i) (allergyFields st)\<rparr>
      else st)"

text \<open>
  \<open>validateAllFields\<close> returns its verdict and stores the re-validated fields and the form
  errors.
\<close>

definition updatedAllergyFields :: "AllergyField list \<Rightarrow> AllergyField list" where
  "updatedAllergyFields fs = map (\<lambda>field. field\<lparr>field_error := validateAllergyInput (field_value field)\<rparr>) fs"

definition hasValidAllergy :: "AllergyField list \<Rightarrow> bool" where
  "hasValidAllergy fs = list_ex (\<lambda>field. truthy (trim (field_value field)) \<and> \<not> truthy (field_error field)) fs"

definition validateAllFields :: "AllergyForm \<Rightarrow> bool \<times> AllergyForm" where
  "validateAllFields st =
     (let newFormErrors = \<lparr>name_error = validateName (name (formData st)),
                            email_error = validateEmail (email (formData st)),
                            emergencyContact_error = js '''',
                            allergies_error = js ''''\<rparr>;
          updated = updatedAllergyFields (allergyFields st);
          isValid = \<not> list_ex (\<lambda>field. truthy (field_error field)) updated;
          valid = hasValidAllergy updated;
          newFormErrors' = (if \<not> valid
                            then newFormErrors\<lparr>allergies_error := js ''At least one allergy must be provided''\<rparr>
                            else newFormErrors);
          isValid' = (if \<not> valid then False else isValid);
          isValid'' = (if truthy (name_error newFormErrors') \<or> truthy (email_error newFormErrors')
                       then False else isValid')
      in (isValid'', st\<lparr>allergyFields := updated, formErrors := newFormErrors'\<rparr>))"

text \<open>
  \<open>handleSubmit\<close>; \<open>now\<close> is \<open>new Date().toISOString()\<close>.  The handler reads
  \<open>allergyFields\<close> and \<open>formData\<close> of the render it was created in, so the list it
  filters is the one before \<open>validateAllFields\<close> stored the re-validated fields.
\<close>

definition handleSubmit :: "js_string \<Rightarrow> AllergyForm \<Rightarrow> AllergyForm" where
  "handleSubmit now st =
     (case validateAllFields (st\<lparr>isSubmitting := True\<rparr>) of
        (False, st') \<Rightarrow> st'\<lparr>isSubmitting := False\<rparr>
      | (True, st') \<Rightarrow>
          (let validAllergies =
                 map (\<lambda>field. trim (field_value field))
                   (filter (\<lambda>field. truthy (trim (field_value field)) \<and> \<not> truthy (field_error field))
                      (allergyFields st));
               submissionData = \<lparr>profile_name = trim (name (formData st)),
                                  profile_email = trim (email (formData st)),
                                  profile_emergencyContact = trim (emergencyContact (formData st)),
                                  profile_allergies = validAllergies,
                                  profile_submittedAt = Some now\<rparr>
           in st'\<lparr>userProfile := Some submissionData,
                  pushed := Some (js ''/menuInput''),
                  isSubmitting := False\<rparr>))"

text \<open>
  Every field shows no error or the error of its value: the handlers keep it so, from the
  initial list on.
\<close>

definition errors_shown :: "AllergyField list \<Rightarrow> bool" where
  "errors_shown fs =
     list_all (\<lambda>field. field_error field = js ''''
                 \<or> field_error field = validateAllergyInput (field_value field)) fs"

section \<open>The first version of the form (components/AllergyForm.js)\<close>

text \<open>There the entries are plain strings, addressed by their index.\<close>

record AllergyFormJs =
  allergies_js :: "js_string list"
  errors_js :: "js_string list"

text \<open>\<open>xs.filter((_, i) => i !== index)\<close>\<close>

definition filter_index :: "nat \<Rightarrow> 'a list \<Rightarrow> 'a list" where
  "filter_index index xs = map snd (filter (\<lambda>(i, x). i \<noteq> index) (zip [0 ..< length xs] xs))"

definition addAllergyField_js :: "AllergyFormJs \<Rightarrow> AllergyFormJs" where
  "addAllergyField_js st =
     st\<lparr>allergies_js := allergies_js st @ [js ''''], errors_js := errors_js st @ [js '''']\<rparr>"

definition removeAllergyField_js :: "nat \<Rightarrow> AllergyFormJs \<Rightarrow> AllergyFormJs" where
  "removeAllergyField_js index st =
     (if length (allergies_js st) > 1
      then st\<lparr>allergies_js := filter_index index (allergies_js st),
              errors_js := filter_index index (errors_js st)\<rparr>
      else st)"

section \<open>Sequences of form operations\<close>

datatype entry_op = AddEntry js_string | RemoveEntry js_string

fun apply_op :: "entry_op \<Rightarrow> AllergyForm \<Rightarrow> AllergyForm" where
  "apply_op (AddEntry newId) st = addAllergyField newId st"
| "apply_op (RemoveEntry i) st = removeAllergyField i st"

fun apply_ops :: "entry_op list \<Rightarrow> AllergyForm \<Rightarrow> AllergyForm" where
  "apply_ops [] st = st"
| "apply_ops (op # ops) st = apply_ops ops (apply_op op st)"

text \<open>
  \<open>crypto.randomUUID()\<close> returns an identifier that no field has yet: \<open>fresh_ids ops st\<close>
  says so of every \<open>AddEntry\<close> of the sequence, at the moment it is applied.
\<close>

fun fresh_ids :: "entry_op list \<Rightarrow> AllergyForm \<Rightarrow> bool" where
  "fresh_ids [] st = True"
| "fresh_ids (AddEntry newId # ops) st =
     (newId \<notin> set (map field_id (allergyFields st)) \<and> fresh_ids ops (addAllergyField newId st))"
| "fresh_ids (RemoveEntry i # ops) st = fresh_ids ops (removeAllergyField i st)"

datatype entry_op_js = AddEntry_js | RemoveEntry_js nat

fun apply_op_js :: "entry_op_js \<Rightarrow> AllergyFormJs \<Rightarrow> AllergyFormJs" where
  "apply_op_js AddEntry_js st = addAllergyField_js st"
| "apply_op_js (RemoveEntry_js index) st = removeAllergyField_js index st"

fun apply_ops_js :: "entry_op_js list \<Rightarrow> AllergyFormJs \<Rightarrow> AllergyFormJs" where
  "apply_ops_js [] st = st"
| "apply_ops_js (op # ops) st = apply_ops_js ops (apply_op_js op st)"

section \<open>JavaScript values and errors\<close>

text \<open>
  A thrown error object, with its \<open>name\<close> and its \<open>message\<close>.
\<close>

datatype js_error = JsError (error_name: js_string) (error_message: js_string)

definition Error :: "js_string \<Rightarrow> js_error" where
  "Error msg = JsError (js ''Error'') msg"

definition TypeError :: "js_string \<Rightarrow> js_error" where
  "TypeError msg = JsError (js ''TypeError'') msg"

text \<open>
  What \<open>JSON.parse\<close> returns.  An object is the list of its keys and values; no claim
  reads the payload of a number beyond its being zero.
\<close>

datatype json =
    JNull
  | JBool bool
  | JNum int
  | JStr js_string
  | JArr "json list"
  | JObj "(js_string \<times> json) list"

text \<open>
  \<open>JSON.parse\<close> belongs to the platform: the functions that call it take it as the
  parameter \<open>JSON_parse\<close>, which returns the value or the \<open>SyntaxError\<close> thrown.
\<close>

type_synonym json_parser = "js_string \<Rightarrow> js_error + json"

fun json_truthy :: "json \<Rightarrow> bool" where
  "json_truthy JNull = False"
| "json_truthy (JBool b) = b"
| "json_truthy (JNum n) = (n \<noteq> 0)"
| "json_truthy (JStr s) = (s \<noteq> [])"
| "json_truthy (JArr xs) = True"
| "json_truthy (JObj kvs) = True"

text \<open>
  Reading the property \<open>k\<close> of a parsed value, for a key that no prototype defines (the
  keys read below are those of the response schema and \<open>catch\<close>): \<open>None\<close> is
  \<open>undefined\<close>, and reading a property of \<open>null\<close> throws.
\<close>

fun get_prop :: "json \<Rightarrow> js_string \<Rightarrow> js_error + json option" where
  "get_prop JNull k = Inl (TypeError (js ''Cannot read properties of null''))"
| "get_prop (JObj kvs) k = Inr (map_of kvs k)"
| "get_prop v k = Inr None"

text \<open>
  Calling the method \<open>k\<close> of a parsed value: whatever the property holds, it is
  \<open>undefined\<close> or a parsed value, never a function.
\<close>

definition call_method :: "json \<Rightarrow> js_string \<Rightarrow> js_error + json" where
  "call_method v k =
     (case get_prop v k of
        Inl e \<Rightarrow> Inl e
      | Inr f \<Rightarrow> Inl (TypeError (k @ js '' is not a function'')))"

section \<open>The lookup call (modules/aiFunctions.mjs)\<close>

text \<open>\<open>process.env\<close>: a variable is unset or holds a string.\<close>

type_synonym env = "string \<Rightarrow> js_string option"

text \<open>\<open>a || b\<close> and \<open>!a\<close> on a value that is a string or \<open>undefined\<close>.\<close>

definition or_else :: "js_string option \<Rightarrow> js_string option \<Rightarrow> js_string option" where
  "or_else a b = (case a of None \<Rightarrow> b | Some s \<Rightarrow> if s = [] then b else Some s)"

definition falsy :: "js_string option \<Rightarrow> bool" where
  "falsy a = (case a of None \<Rightarrow> True | Some s \<Rightarrow> s = [])"

record ClientOptions =
  endpoint :: js_string
  apiKey :: js_string
  deployment :: js_string
  apiVersion :: js_string
  dangerouslyAllowBrowser :: bool

record ChatMessage =
  role :: js_string
  content :: js_string

record ChatRequest =
  options :: ClientOptions
  messages :: "ChatMessage list"
  max_tokens :: nat
  temperature :: nat
  top_p :: nat
  model :: js_string
  response_format :: js_string

text \<open>
  The hosted model is outside the program: \<open>service\<close> maps the request it receives to
  the rejection of the call or to the contents of the messages of \<open>response.choices\<close>.
\<close>

datatype completion = Rejects js_error | Choices "js_string option list"

type_synonym service = "ChatRequest \<Rightarrow> completion"

definition systemContent :: js_string where
  "systemContent = js ''You are a helpful assistant who is helping users figure out which food from restaurants are safe to eat or not based on their allergies. Since this is a safety issue, please be thorough in your analysis and include every single food item from the restaurant.''"

definition userContent_tail :: js_string where
  "userContent_tail = js ''. Can you help me identify menu items that would be safe for me to eat and which ones I should avoid? If there is an official allergen menu, please use that. Organize the different foods into three categories: 1. More Safe, 2. Questionable, 3. Avoid. For every food item, please include one or more questions that I could ask the restaurant staff that would help clarify its safety. Include every food item on the menu in your response. Please include at least 50 objects in the json response. Make sure you include every food item from the restaurant's menu.''"

definition userContent :: "js_string \<Rightarrow> js_string \<Rightarrow> js_string" where
  "userContent list restaurant =
     js ''I have allergies to: '' @ list @ js ''. I am planning to eat at '' @ restaurant
       @ userContent_tail"

text \<open>The allergy list may be \<open>null\<close> or \<open>undefined\<close>: \<open>None\<close>.\<close>

definition allergiesList :: "js_string list option \<Rightarrow> js_string" where
  "allergiesList allergies =
     (case allergies of
        None \<Rightarrow> js ''no specific allergies mentioned''
      | Some xs \<Rightarrow> if length xs > 0 then join (js '', '') xs
                  else js ''no specific allergies mentioned'')"

definition chatRequest :: "ClientOptions \<Rightarrow> js_string \<Rightarrow> js_string \<Rightarrow> js_string list option \<Rightarrow> ChatRequest" where
  "chatRequest opts modelName restaurantName allergies =
     \<lparr>options = opts,
      messages = [\<lparr>role = js ''system'', content = systemContent\<rparr>,
                  \<lparr>role = js ''user'', content = userContent (allergiesList allergies) restaurantName\<rparr>],
      max_tokens = 16384, temperature = 1, top_p = 1, model = modelName,
      response_format = js ''menuSchema''\<rparr>"

text \<open>
  \<open>response.choices[0].message.content\<close>: reading \<open>message\<close> of a missing first choice
  throws.
\<close>

definition responseText :: "js_string option list \<Rightarrow> js_error + js_string option" where
  "responseText choices =
     (case choices of
        [] \<Rightarrow> Inl (TypeError (js ''Cannot read properties of undefined''))
      | c # cs \<Rightarrow> Inr c)"

text \<open>
  The call itself.  It takes the list of the requests sent so far and returns it with the
  request it sent, if it sent one; \<open>Inl\<close> is the error the returned promise rejects with.
  This is the version that reads the server-side variables only.
\<close>

definition getSafeFoodsByRestaurantName_server ::
  "env \<Rightarrow> service \<Rightarrow> js_string \<Rightarrow> js_string list option \<Rightarrow> ChatRequest list
     \<Rightarrow> (js_error + js_string option) \<times> ChatRequest list" where
  "getSafeFoodsByRestaurantName_server env service restaurantName allergies sent =
     (let apiKey = env ''AZURE_OPENAI_API_KEY'';
          apiVersion = or_else (env ''AZURE_OPENAI_API_VERSION'') (Some (js ''2024-08-01-preview''));
          endpoint = env ''AZURE_OPENAI_ENDPOINT'';
          modelName = or_else (env ''AZURE_OPENAI_MODEL_NAME'') (Some (js ''gpt-4o''));
          deployment = or_else (env ''AZURE_OPENAI_DEPLOYMENT'') (Some (js ''gpt-4o''))
      in if falsy apiKey
         then (Inl (Error (js ''AZURE_OPENAI_API_KEY environment variable is required'')), sent)
         else if falsy endpoint
         then (Inl (Error (js ''AZURE_OPENAI_ENDPOINT environment variable is required'')), sent)
         else
           (let opts = \<lparr>endpoint = the endpoint, apiKey = the apiKey, deployment = the deployment,
                        apiVersion = the apiVersion, dangerouslyAllowBrowser = True\<rparr>;
                request = chatRequest opts (the modelName) restaurantName allergies
            in (case service request of
                  Rejects e \<Rightarrow> Inl e
                | Choices choices \<Rightarrow> responseText choices,
                sent @ [request])))"

text \<open>The version that falls back on the variables Next.js exposes to the browser.\<close>

definition getSafeFoodsByRestaurantName ::
  "env \<Rightarrow> service \<Rightarrow> js_string \<Rightarrow> js_string list option \<Rightarrow> ChatRequest list
     \<Rightarrow> (js_error + js_string option) \<times> ChatRequest list" where
  "getSafeFoodsByRestaurantName env service restaurantName allergies sent =
     (let apiKey = or_else (env ''AZURE_OPENAI_API_KEY'') (env ''NEXT_PUBLIC_AZURE_OPENAI_API_KEY'');
          apiVersion = or_else (env ''AZURE_OPENAI_API_VERSION'')
                         (or_else (env ''NEXT_PUBLIC_AZURE_OPENAI_API_VERSION'')
                            (Some (js ''2024-08-01-preview'')));
          endpoint = or_else (env ''AZURE_OPENAI_ENDPOINT'') (env ''NEXT_PUBLIC_AZURE_OPENAI_ENDPOINT'');
          modelName = or_else (env ''AZURE_OPENAI_MODEL_NAME'')
                        (or_else (env ''NEXT_PUBLIC_AZURE_OPENAI_MODEL_NAME'') (Some (js ''gpt-4o'')));
          deployment = or_else (env ''AZURE_OPENAI_DEPLOYMENT'')
                         (or_else (env ''NEXT_PUBLIC_AZURE_OPENAI_DEPLOYMENT'') (Some (js ''gpt-4o'')))
      in if falsy apiKey
         then (Inl (Error (js ''Missing required environment variable: AZURE_OPENAI_API_KEY'')), sent)
         else if falsy endpoint
         then (Inl (Error (js ''Missing required environment variable: AZURE_OPENAI_ENDPOINT'')), sent)
         else
           (let opts = \<lparr>endpoint = the endpoint, apiKey = the apiKey, deployment = the deployment,
                        apiVersion = the apiVersion, dangerouslyAllowBrowser = True\<rparr>;
                request = chatRequest opts (the modelName) restaurantName allergies
            in (case service request of
                  Rejects e \<Rightarrow> Inl e
                | Choices choices \<Rightarrow> responseText choices,
                sent @ [request])))"

section \<open>The lookup page (menuInput/page.tsx)\<close>

record File =
  file_name :: js_string
  file_size :: nat
  file_type :: js_string

record MenuInput =
  selectedOption :: js_string
  restaurantName :: js_string
  foodName :: js_string
  selectedFile :: "File option"
  isProcessing :: bool
  error :: js_string
  menuData :: json
  showResults :: bool
  expandedCategories :: "js_string \<Rightarrow> bool"

text \<open>At first the section \<open>More Safe\<close> is open and the other two are closed.\<close>

definition initially_expanded :: "js_string \<Rightarrow> bool" where
  "initially_expanded category = (category = js ''More Safe'')"

definition toggleCategory :: "js_string \<Rightarrow> MenuInput \<Rightarrow> MenuInput" where
  "toggleCategory category st =
     st\<lparr>expandedCategories :=
          (expandedCategories st)(category := \<not> expandedCategories st category)\<rparr>"

text \<open>The text that replaces an empty or \<open>null\<close> response.\<close>

definition emptyResponse :: js_string where
  \<open>emptyResponse = js ''{"restaurantName": "", "foods": []}''\<close>

text \<open>The value that \<open>JSON.parse\<close> returns for it.\<close>

definition empty_menu :: json where
  "empty_menu = JObj [(js ''restaurantName'', JStr (js '''')), (js ''foods'', JArr [])]"

text \<open>
  \<open>validateAndProceed\<close>.  \<open>lookup\<close> is the imported \<open>getSafeFoodsByRestaurantName\<close>, with
  the error it rejects with on the left; \<open>userAllergies\<close> is the list of the profile, or
  the empty list.
\<close>

definition validateAndProceed ::
  "(js_string \<Rightarrow> js_string list \<Rightarrow> js_error + js_string option) \<Rightarrow> json_parser
     \<Rightarrow> js_string list \<Rightarrow> MenuInput \<Rightarrow> MenuInput" where
  "validateAndProceed lookup JSON_parse userAllergies st =
     (let st0 = st\<lparr>isProcessing := True, error := js '''', menuData := JNull, showResults := False\<rparr>
      in if selectedOption st = js ''text'' then
           if \<not> truthy (trim (restaurantName st))
           then st0\<lparr>error := js ''Please enter a restaurant name to check for allergens'',
                    isProcessing := False\<rparr>
           else
             (case lookup (trim (restaurantName st)) userAllergies of
                Inl e \<Rightarrow>
                  st0\<lparr>error := js ''An error occurred while analyzing the menu. Please try again.'',
                      isProcessing := False\<rparr>
              | Inr aiResponse \<Rightarrow>
                  (let aiResponse' = (if falsy aiResponse then emptyResponse else the aiResponse)
                   in case JSON_parse aiResponse' of
                        Inl parseError \<Rightarrow>
                          st0\<lparr>error := js ''Unable to parse response from AI service. Please try again.'',
                              isProcessing := False\<rparr>
                      | Inr parsedData \<Rightarrow>
                          st0\<lparr>menuData := parsedData, showResults := True, isProcessing := False\<rparr>))
         else if selectedOption st = js ''picture'' then
           (case selectedFile st of
              None \<Rightarrow> st0\<lparr>error := js ''Please select or capture an image'', isProcessing := False\<rparr>
            | Some f \<Rightarrow>
                st0\<lparr>error := js ''Picture analysis is coming soon. Please use the text input option for now.'',
                    isProcessing := False\<rparr>)
         else st0\<lparr>isProcessing := False\<rparr>)"

text \<open>
  The results display.  For each of the three categories, in this order, the page filters
  the foods whose \<open>safetyClassification\<close> is strictly equal to the category, and shows a
  section with them unless there are none; a section is open or closed as
  \<open>expandedCategories\<close> says.  Calling \<open>filter\<close> on a \<open>foods\<close> that is not an array throws,
  as reading \<open>safetyClassification\<close> of a \<open>null\<close> food does; an error thrown while
  rendering takes the page down.
\<close>

definition categories :: "js_string list" where
  "categories = [js ''More Safe'', js ''Questionable'', js ''Avoid'']"

definition in_category :: "js_string \<Rightarrow> json \<Rightarrow> js_error + bool" where
  "in_category category food =
     (case get_prop food (js ''safetyClassification'') of
        Inl e \<Rightarrow> Inl e
      | Inr v \<Rightarrow> Inr (v = Some (JStr category)))"

fun filter_foods :: "js_string \<Rightarrow> json list \<Rightarrow> js_error + json list" where
  "filter_foods category [] = Inr []"
| "filter_foods category (food # foods) =
     (case in_category category food of
        Inl e \<Rightarrow> Inl e
      | Inr keep \<Rightarrow>
          (case filter_foods category foods of
             Inl e \<Rightarrow> Inl e
           | Inr rest \<Rightarrow> Inr (if keep then food # rest else rest)))"

definition categoryFoods :: "json \<Rightarrow> js_string \<Rightarrow> js_error + json list" where
  "categoryFoods data category =
     (case get_prop data (js ''foods'') of
        Inl e \<Rightarrow> Inl e
      | Inr None \<Rightarrow> Inl (TypeError (js ''Cannot read properties of undefined''))
      | Inr (Some (JArr foods)) \<Rightarrow> filter_foods category foods
      | Inr (Some v) \<Rightarrow> Inl (TypeError (js ''filter is not a function'')))"

text \<open>A section is its category, its foods and whether it is open.\<close>

fun render_categories ::
  "json \<Rightarrow> (js_string \<Rightarrow> bool) \<Rightarrow> js_string list \<Rightarrow> js_error + (js_string \<times> json list \<times> bool) list" where
  "render_categories data expanded [] = Inr []"
| "render_categories data expanded (category # cs) =
     (case categoryFoods data category of
        Inl e \<Rightarrow> Inl e
      | Inr foods \<Rightarrow>
          (case render_categories data expanded cs of
             Inl e \<Rightarrow> Inl e
           | Inr rest \<Rightarrow>
               Inr (if length foods = 0 then rest else (category, foods, expanded category) # rest)))"

text \<open>
  What React accepts as a child \<open>{v}\<close>: a string or a number is text, \<open>null\<close>, a boolean
  and \<open>undefined\<close> are nothing, an array is rendered element by element; a plain object
  makes React throw.
\<close>

fun valid_child :: "json \<Rightarrow> bool" where
  "valid_child (JObj kvs) = False"
| "valid_child (JArr xs) = list_all valid_child xs"
| "valid_child v = True"

text \<open>A property that may be \<open>undefined\<close>, as a child.\<close>

definition valid_child_opt :: "json option \<Rightarrow> bool" where
  "valid_child_opt c = (case c of None \<Rightarrow> True | Some v \<Rightarrow> valid_child v)"

definition truthy_opt :: "json option \<Rightarrow> bool" where
  "truthy_opt c = (case c of None \<Rightarrow> False | Some v \<Rightarrow> json_truthy v)"

text \<open>
  \<open>{x && (<p>{x}</p>)}\<close>: the block with the child is rendered when \<open>x\<close> is truthy; a falsy
  \<open>x\<close> is itself the child, and is nothing or the digit 0.
\<close>

definition guarded_child :: "json option \<Rightarrow> bool" where
  "guarded_child c = (if truthy_opt c then valid_child_opt c else True)"

text \<open>
  The card of a food in an open section has \<open>food.name\<close>, \<open>food.reasoning\<close> when it is
  truthy, and \<open>food.questions\<close> as children: \<open>card_valid\<close> says whether React accepts them.
\<close>

definition card_valid :: "json \<Rightarrow> js_error + bool" where
  "card_valid food =
     (case get_prop food (js ''name'') of
        Inl e \<Rightarrow> Inl e
      | Inr n \<Rightarrow>
          (case get_prop food (js ''reasoning'') of
             Inl e \<Rightarrow> Inl e
           | Inr r \<Rightarrow>
               (case get_prop food (js ''questions'') of
                  Inl e \<Rightarrow> Inl e
                | Inr q \<Rightarrow> Inr (valid_child_opt n \<and> guarded_child r \<and> valid_child_opt q))))"

fun cards_valid :: "json list \<Rightarrow> js_error + bool" where
  "cards_valid [] = Inr True"
| "cards_valid (food # foods) =
     (case card_valid food of
        Inl e \<Rightarrow> Inl e
      | Inr this \<Rightarrow>
          (case cards_valid foods of
             Inl e \<Rightarrow> Inl e
           | Inr others \<Rightarrow> Inr (this \<and> others)))"

text \<open>The cards are rendered in the open sections only.\<close>

fun sections_valid :: "(js_string \<times> json list \<times> bool) list \<Rightarrow> js_error + bool" where
  "sections_valid [] = Inr True"
| "sections_valid ((category, foods, expanded) # rest) =
     (if expanded then
        (case cards_valid foods of
           Inl e \<Rightarrow> Inl e
         | Inr this \<Rightarrow>
             (case sections_valid rest of
                Inl e \<Rightarrow> Inl e
              | Inr others \<Rightarrow> Inr (this \<and> others)))
      else sections_valid rest)"

text \<open>
  The blocks of the results panel: the restaurant name after
  \<open>Allergy Analysis Results for\<close>, the restaurant information when its block is rendered
  (when it is truthy), the user's allergies when there are some, and the sections.  The
  record lists the blocks only: where a guard \<open>{x && ...}\<close> has the number 0 for \<open>x\<close>,
  React puts the digit 0 in place of the block.
\<close>

record panel =
  panel_heading :: "json option"
  panel_information :: "json option"
  panel_allergies :: "js_string option"
  panel_sections :: "(js_string \<times> json list \<times> bool) list"

definition child_error :: js_error where
  "child_error = Error (js ''Objects are not valid as a React child'')"

text \<open>
  The results display, \<open>{showResults && menuData && (...)}\<close> inside
  \<open>{selectedOption && (...)}\<close>: \<open>None\<close> when the panel is not rendered, \<open>Inl\<close> when
  rendering it throws, in the component itself (a \<open>TypeError\<close>) or in React for a child
  that it does not accept.  The component reads and filters before React looks at any
  child, and once the first \<open>filter\<close> has returned no food is \<open>null\<close>, so that nothing
  the component does afterwards throws.
\<close>

definition results_display :: "js_string list \<Rightarrow> MenuInput \<Rightarrow> js_error + panel option" where
  "results_display userAllergies st =
     (if truthy (selectedOption st) \<and> showResults st \<and> json_truthy (menuData st) then
        (case get_prop (menuData st) (js ''restaurantName'') of
           Inl e \<Rightarrow> Inl e
         | Inr nm \<Rightarrow>
             (case get_prop (menuData st) (js ''restaurantInfo'') of
                Inl e \<Rightarrow> Inl e
              | Inr info \<Rightarrow>
                  (case render_categories (menuData st) (expandedCategories st) categories of
                     Inl e \<Rightarrow> Inl e
                   | Inr shown \<Rightarrow>
                       (case sections_valid shown of
                          Inl e \<Rightarrow> Inl e
                        | Inr cards \<Rightarrow>
                            if valid_child_opt nm \<and> guarded_child info \<and> cards
                            then Inr (Some
                              \<lparr>panel_heading = nm,
                               panel_information = (if truthy_opt info then info else None),
                               panel_allergies =
                                 (if length userAllergies > 0 then Some (join (js '', '') userAllergies)
                                  else None),
                               panel_sections = shown\<rparr>)
                            else Inl child_error))))
      else Inr None)"

section \<open>The HTTP client (modules/client.ts)\<close>

datatype details = NoDetails | JsonDetails json | ErrorDetails js_error

record ApiError =
  error_kind :: js_string
  message :: js_string
  code :: "nat option"
  api_details :: details

datatype ApiResponse = Success json | Failure ApiError

definition DEFAULT_TIMEOUT :: nat where
  "DEFAULT_TIMEOUT = 30000"

definition API_BASE_URL :: "env \<Rightarrow> js_string" where
  "API_BASE_URL env = the (or_else (env ''NEXT_PUBLIC_API_URL'') (Some (js ''/api'')))"

record ApiClient =
  baseUrl :: js_string
  timeout :: nat

text \<open>The constructor, with its two optional arguments.\<close>

definition new_ApiClient :: "env \<Rightarrow> js_string option \<Rightarrow> nat option \<Rightarrow> ApiClient" where
  "new_ApiClient env b t =
     \<lparr>baseUrl = (case b of None \<Rightarrow> API_BASE_URL env | Some u \<Rightarrow> u),
      timeout = (case t of None \<Rightarrow> DEFAULT_TIMEOUT | Some ms \<Rightarrow> ms)\<rparr>"

definition apiClient :: "env \<Rightarrow> ApiClient" where
  "apiClient env = new_ApiClient env None None"

text \<open>
  What \<open>fetch\<close> does is the network's business.  A response carries \<open>ok\<close>, \<open>status\<close> and
  what \<open>response.json()\<close> does: it resolves with the parsed body, rejects, or, when the body
  never finishes arriving, does not settle at all.  An exchange is the time in milliseconds
  after which \<open>fetch\<close> would settle without a signal, and how.
\<close>

datatype body = Json json | Unparsable js_error | Stalled

record Response =
  ok :: bool
  status :: nat
  response_body :: body

datatype settled = Resolves Response | Fails js_error

record RequestInit =
  request_method :: "js_string option"
  request_body :: "js_string option"
  headers :: "(js_string \<times> js_string) list"

type_synonym network = "js_string \<Rightarrow> RequestInit \<Rightarrow> nat \<times> settled"

definition AbortError :: js_error where
  "AbortError = JsError (js ''AbortError'') (js ''The operation was aborted.'')"

text \<open>
  \<open>fetch\<close> under the signal of a controller that a timer aborts after \<open>ms\<close> milliseconds:
  a call that has not settled by then rejects with an \<open>AbortError\<close>.
\<close>

definition fetch_with_abort :: "network \<Rightarrow> nat \<Rightarrow> js_string \<Rightarrow> RequestInit \<Rightarrow> settled" where
  "fetch_with_abort net ms url init =
     (case net url init of (latency, outcome) \<Rightarrow> if latency < ms then outcome else Fails AbortError)"

text \<open>
  The options that \<open>request\<close> hands to \<open>fetch\<close>.  A list of headers is read from the
  front: the caller's headers come before the default content type, which they override.
\<close>

definition fetch_init :: "RequestInit \<Rightarrow> RequestInit" where
  "fetch_init opts =
     opts\<lparr>headers := headers opts @ [(js ''Content-Type'', js ''application/json'')]\<rparr>"

text \<open>
  The body of the \<open>try\<close> block of \<open>request\<close>: \<open>Some (Inl e)\<close> when it throws \<open>e\<close>, \<open>None\<close>
  when it never completes.  \<open>clearTimeout\<close> runs as soon as \<open>fetch\<close> has resolved, before
  \<open>response.json()\<close> is awaited, so nothing aborts the reading of the body.
\<close>

definition request_try ::
  "ApiClient \<Rightarrow> network \<Rightarrow> js_string \<Rightarrow> RequestInit \<Rightarrow> (js_error + ApiResponse) option" where
  "request_try client net path opts =
     (let url = baseUrl client @ path;
          init = fetch_init opts
      in case fetch_with_abort net (timeout client) url init of
           Fails e \<Rightarrow> Some (Inl e)
         | Resolves response \<Rightarrow>
             if \<not> ok response then
               (case (case response_body response of
                        Json d \<Rightarrow> Some d
                      | Unparsable e \<Rightarrow> Some (JObj [])
                      | Stalled \<Rightarrow> None) of
                  None \<Rightarrow> None
                | Some errorData \<Rightarrow>
                    Some (Inr (Failure
                      \<lparr>error_kind = js ''HTTP_ERROR'',
                       message = js ''Request failed with status '' @ number_toString (status response),
                       code = Some (status response),
                       api_details = JsonDetails errorData\<rparr>)))
             else
               (case response_body response of
                  Stalled \<Rightarrow> None
                | Unparsable e \<Rightarrow> Some (Inl e)
                | Json d \<Rightarrow> Some (Inr (Success d))))"

text \<open>The \<open>catch\<close> block of \<open>request\<close>.\<close>

definition request_catch :: "js_error \<Rightarrow> js_error + ApiResponse" where
  "request_catch e =
     (if error_name e = js ''AbortError''
      then Inr (Failure \<lparr>error_kind = js ''TIMEOUT'', message = js ''Request timed out'',
                         code = None, api_details = NoDetails\<rparr>)
      else Inr (Failure \<lparr>error_kind = js ''NETWORK_ERROR'',
                         message = (if truthy (error_message e) then error_message e
                                    else js ''Network request failed''),
                         code = None, api_details = ErrorDetails e\<rparr>))"

text \<open>
  \<open>request\<close>: \<open>Some (Inr r)\<close> when the promise resolves to \<open>r\<close>, \<open>Some (Inl e)\<close> when it
  rejects with \<open>e\<close>, \<open>None\<close> when it never settles.
\<close>

definition request ::
  "ApiClient \<Rightarrow> network \<Rightarrow> js_string \<Rightarrow> RequestInit \<Rightarrow> (js_error + ApiResponse) option" where
  "request client net path opts =
     (case request_try client net path opts of
        None \<Rightarrow> None
      | Some (Inl e) \<Rightarrow> Some (request_catch e)
      | Some (Inr r) \<Rightarrow> Some (Inr r))"

text \<open>
  \<open>uploadFile\<close> resolves its promise in one of three event handlers.  The \<open>load\<close> event
  carries \<open>xhr.status\<close> and \<open>xhr.responseText\<close>.
\<close>

datatype xhr_event = Load nat js_string | NetworkFailure | TimedOut

text \<open>The \<open>try\<close> block of the \<open>load\<close> handler.\<close>

definition load_try :: "json_parser \<Rightarrow> nat \<Rightarrow> js_string \<Rightarrow> js_error + ApiResponse" where
  "load_try JSON_parse xhr_status xhr_responseText =
     (if xhr_status \<ge> 200 \<and> xhr_status < 300 then
        (case JSON_parse xhr_responseText of
           Inl e \<Rightarrow> Inl e
         | Inr d \<Rightarrow> Inr (Success d))
      else
        (case JSON_parse xhr_responseText of
           Inl e \<Rightarrow> Inl e
         | Inr v \<Rightarrow>
             (case call_method v (js ''catch'') of
                Inl e \<Rightarrow> Inl e
              | Inr errorData \<Rightarrow>
                  Inr (Failure
                    \<lparr>error_kind = js ''UPLOAD_ERROR'',
                     message = js ''Upload failed with status '' @ number_toString xhr_status,
                     code = Some xhr_status,
                     api_details = JsonDetails errorData\<rparr>))))"

definition uploadFile :: "json_parser \<Rightarrow> xhr_event \<Rightarrow> js_error + ApiResponse" where
  "uploadFile JSON_parse event =
     (case event of
        Load xhr_status xhr_responseText \<Rightarrow>
          (case load_try JSON_parse xhr_status xhr_responseText of
             Inr r \<Rightarrow> Inr r
           | Inl e \<Rightarrow>
               Inr (Failure \<lparr>error_kind = js ''PARSE_ERROR'', message = js ''Failed to parse response'',
                             code = None, api_details = ErrorDetails e\<rparr>))
      | NetworkFailure \<Rightarrow>
          Inr (Failure \<lparr>error_kind = js ''NETWORK_ERROR'',
                        message = js ''Upload failed due to network error'',
                        code = None, api_details = NoDetails\<rparr>)
      | TimedOut \<Rightarrow>
          Inr (Failure \<lparr>error_kind = js ''TIMEOUT'', message = js ''Upload timed out'',
                        code = None, api_details = NoDetails\<rparr>))"

text \<open>The imported function as the page calls it, with nothing sent before.\<close>

definition lookup_with :: "env \<Rightarrow> service \<Rightarrow> js_string \<Rightarrow> js_string list \<Rightarrow> js_error + js_string option" where
  "lookup_with env service r a = fst (getSafeFoodsByRestaurantName env service r (Some a) [])"

section \<open>Example inputs\<close>

text \<open>A form with a valid entry and a spare blank one.\<close>

definition blank_entry_form :: AllergyForm where
  "blank_entry_form =
     \<lparr>formData = \<lparr>name = js ''Sam Lee'', email = js ''sam@example.com'', emergencyContact = js ''''\<rparr>,
      allergyFields = [\<lparr>field_id = js ''1'', field_value = js ''Peanuts'', field_error = js ''''\<rparr>,
                       \<lparr>field_id = js ''2'', field_value = js '''', field_error = js ''''\<rparr>],
      formErrors = \<lparr>name_error = js '''', email_error = js '''', emergencyContact_error = js '''',
                     allergies_error = js ''''\<rparr>,
      isSubmitting = False, userProfile = None, pushed = None\<rparr>"

text \<open>The same form with the blank entry removed, and the form as it is first shown.\<close>

definition peanuts_form :: AllergyForm where
  "peanuts_form =
     blank_entry_form\<lparr>allergyFields :=
        [\<lparr>field_id = js ''1'', field_value = js ''Peanuts'', field_error = js ''''\<rparr>]\<rparr>"

definition fresh_form :: AllergyForm where
  "fresh_form = blank_entry_form\<lparr>allergyFields := initialAllergyFields None\<rparr>"

text \<open>An environment with the two required variables, and one with none.\<close>

definition configured_env :: env where
  "configured_env k =
     (if k = ''AZURE_OPENAI_API_KEY'' then Some (js ''secret'')
      else if k = ''AZURE_OPENAI_ENDPOINT'' then Some (js ''https://example.cognitiveservices.azure.com/'')
      else None)"

definition unset_env :: env where
  "unset_env k = None"

text \<open>A service that answers every request with one choice.\<close>

definition answering :: "js_string option \<Rightarrow> service" where
  "answering text req = Choices [text]"

text \<open>
  Response texts with the values \<open>JSON.parse\<close> returns for them: a menu with a food that is
  \<open>More Safe\<close> and a food that carries a fourth classification, an object without \<open>foods\<close>,
  and a menu whose restaurant information is an object; and a text that is not JSON.
\<close>

definition unknown_tier_text :: js_string where
  \<open>unknown_tier_text =
     js ''{"restaurantName": "Diner", "foods": [{"name": "Salad", "safetyClassification": "More Safe", "reasoning": "No nuts", "questions": "Is the dressing made here?"}, {"name": "Fries", "safetyClassification": "Unknown", "reasoning": "", "questions": ""}]}''\<close>

definition salad_food :: json where
  "salad_food =
     JObj [(js ''name'', JStr (js ''Salad'')), (js ''safetyClassification'', JStr (js ''More Safe'')),
           (js ''reasoning'', JStr (js ''No nuts'')),
           (js ''questions'', JStr (js ''Is the dressing made here?''))]"

definition unknown_tier_food :: json where
  "unknown_tier_food =
     JObj [(js ''name'', JStr (js ''Fries'')), (js ''safetyClassification'', JStr (js ''Unknown'')),
           (js ''reasoning'', JStr (js '''')), (js ''questions'', JStr (js ''''))]"

definition unknown_tier_menu :: json where
  "unknown_tier_menu =
     JObj [(js ''restaurantName'', JStr (js ''Diner'')),
           (js ''foods'', JArr [salad_food, unknown_tier_food])]"

definition no_foods_text :: js_string where
  \<open>no_foods_text = js ''{"restaurantName": "Diner"}''\<close>

definition no_foods_menu :: json where
  "no_foods_menu = JObj [(js ''restaurantName'', JStr (js ''Diner''))]"

definition object_info_text :: js_string where
  \<open>object_info_text = js ''{"restaurantName": "Diner", "restaurantInfo": {"note": "x"}, "foods": []}''\<close>

definition object_info_menu :: json where
  "object_info_menu =
     JObj [(js ''restaurantName'', JStr (js ''Diner'')),
           (js ''restaurantInfo'', JObj [(js ''note'', JStr (js ''x''))]),
           (js ''foods'', JArr [])]"

definition not_json_text :: js_string where
  "not_json_text = js ''I cannot help with that.''"

text \<open>\<open>JSON.parse\<close> on these texts and on the replacement of an empty response.\<close>

definition JSON_parse_examples :: json_parser where
  "JSON_parse_examples s =
     (if s = emptyResponse then Inr empty_menu
      else if s = unknown_tier_text then Inr unknown_tier_menu
      else if s = no_foods_text then Inr no_foods_menu
      else if s = object_info_text then Inr object_info_menu
      else Inl (JsError (js ''SyntaxError'') (js ''Unexpected token'')))"

text \<open>
  The lookup page with the text option chosen and a restaurant name typed in; the first
  section is the one that is open at first.
\<close>

definition diner_page :: MenuInput where
  "diner_page =
     \<lparr>selectedOption = js ''text'', restaurantName = js ''Diner '', foodName = js '''',
      selectedFile = None, isProcessing = False, error = js '''', menuData = JNull,
      showResults = False, expandedCategories = initially_expanded\<rparr>"

text \<open>
  Three networks.  The first answers every request with status 503 and a body that is not
  JSON after 120 milliseconds; the second would answer after 45 seconds; the third sends
  the head of a 200 response after 120 milliseconds and never finishes the body.
\<close>

definition unavailable :: network where
  "unavailable url init =
     (120, Resolves \<lparr>ok = False, status = 503,
                     response_body = Unparsable (JsError (js ''SyntaxError'') (js ''Unexpected token''))\<rparr>)"

definition slow :: network where
  "slow url init = (45000, Resolves \<lparr>ok = True, status = 200, response_body = Json JNull\<rparr>)"

definition head_only :: network where
  "head_only url init = (120, Resolves \<lparr>ok = True, status = 200, response_body = Stalled\<rparr>)"

definition get_history :: RequestInit where
  "get_history = \<lparr>request_method = Some (js ''GET''), request_body = None, headers = []\<rparr>"

section \<open>Facts about strings\<close>

declare number_toString.simps [simp del]

lemma of_char_less: "(of_char x :: nat) < 65536"
proof -
  have "(of_char x :: nat) mod 256 = of_char x" by simp
  then have "(of_char x :: nat) < 256"
    by (metis mod_less_divisor zero_less_numeral)
  also have "(256::nat) < 65536" by simp
  finally show ?thesis .
qed

lemma unat_of_char: "unat (of_char c :: 16 word) = of_char c"
proof -
  have "unat (of_nat (of_char c) :: 16 word) = of_char c mod 2 ^ 16"
    by (simp add: unat_of_nat)
  also have "\<dots> = of_char c"
    using of_char_less [of c] by simp
  finally show ?thesis by (simp only: of_nat_of_char)
qed

lemma of_char_word_eq_iff: "(of_char c :: 16 word) = of_char d \<longleftrightarrow> c = d"
proof
  assume "(of_char c :: 16 word) = of_char d"
  then have "unat (of_char c :: 16 word) = unat (of_char d :: 16 word)" by simp
  then have "(of_char c :: nat) = of_char d" by (simp only: unat_of_char)
  then show "c = d" by simp
qed simp

lemma js_eq_iff [simp]: "js a = js b \<longleftrightarrow> a = b"
  unfolding js_def
  by (rule inj_map_eq_map) (simp add: inj_on_def of_char_word_eq_iff)

lemma js_Nil [simp]: "js [] = []"
  by (simp add: js_def)

lemma js_eq_Nil_iff [simp]: "js s = [] \<longleftrightarrow> s = []"
  by (simp add: js_def)

lemma dropWhile_all_iff: "list_all P (dropWhile P s) \<longleftrightarrow> list_all P s"
  by (induction s) auto

lemma trim_Nil_iff: "trim s = [] \<longleftrightarrow> list_all is_whitespace s"
  using dropWhile_all_iff [of is_whitespace s]
  by (simp add: trim_def list_all_iff)

lemma letter_not_whitespace: "is_letter c \<Longrightarrow> \<not> is_whitespace c"
  unfolding is_letter_def is_whitespace_def
  by (auto simp: word_le_def word_less_def)

lemma letters_have_letter:
  "list_all (\<lambda>c. is_letter c \<or> is_whitespace c) v \<Longrightarrow>
     (\<not> list_all is_whitespace v) = list_ex is_letter v"
  by (induction v) (auto dest: letter_not_whitespace)

lemmas eval_js = js_def is_whitespace_def is_letter_def trim_def truthy_def lettersAndSpacesOnly_def

section \<open>Validation of one allergy entry\<close>

lemma validate_ok_trim: "validateAllergyInput v = [] \<Longrightarrow> truthy (trim v)"
  by (simp add: validateAllergyInput_def split: if_splits)

lemma blank_invalid: "trim v = [] \<Longrightarrow> validateAllergyInput v = js ''This field is required''"
  by (simp add: validateAllergyInput_def truthy_def)

lemma validate_accepts:
  "validateAllergyInput v = js '''' \<longleftrightarrow>
     list_all (\<lambda>c. is_letter c \<or> is_whitespace c) v \<and> list_ex is_letter v \<and> 2 \<le> length v"
proof -
  have b: "2 \<le> length v \<Longrightarrow> v \<noteq> []" by auto
  show ?thesis
    using letters_have_letter [of v] b
    by (auto simp: validateAllergyInput_def truthy_def trim_Nil_iff lettersAndSpacesOnly_def)
qed

lemma length_trim_le: "length (trim v) \<le> length v"
proof -
  have "length (trim v) \<le> length (dropWhile is_whitespace v)"
    using length_dropWhile_le [of is_whitespace "rev (dropWhile is_whitespace v)"]
    by (simp add: trim_def)
  also have "\<dots> \<le> length v"
    by (rule length_dropWhile_le)
  finally show ?thesis .
qed

text \<open>
  C4 (as amended).  \<open>validateAllergyInput\<close> returns no error for every string made of
  letters and whitespace only that has at least 2 characters after trimming.  It returns
  an error for every string with a character that is neither a letter nor whitespace (a
  digit, a symbol), the error \<open>This field is required\<close> for every string that is empty
  or blank, and an error for every string of fewer than 2 characters as typed.
\<close>

theorem validateAllergyInput_verdicts:
  "(list_all (\<lambda>c. is_letter c \<or> is_whitespace c) v \<and> 2 \<le> length (trim v)
      \<longrightarrow> validateAllergyInput v = js '''')
   \<and> (list_ex (\<lambda>c. \<not> is_letter c \<and> \<not> is_whitespace c) v \<longrightarrow> validateAllergyInput v \<noteq> js '''')
   \<and> (trim v = [] \<longrightarrow> validateAllergyInput v = js ''This field is required'')
   \<and> (length v < 2 \<longrightarrow> validateAllergyInput v \<noteq> js '''')"
proof (intro conjI impI)
  assume h: "list_all (\<lambda>c. is_letter c \<or> is_whitespace c) v \<and> 2 \<le> length (trim v)"
  then have "trim v \<noteq> []" by auto
  then have "\<not> list_all is_whitespace v"
    by (simp add: trim_Nil_iff)
  with h have "list_ex is_letter v"
    by (simp add: letters_have_letter)
  moreover from h have "2 \<le> length v"
    using length_trim_le [of v] by simp
  ultimately show "validateAllergyInput v = js ''''"
    using h by (simp only: validate_accepts)
next
  assume "list_ex (\<lambda>c. \<not> is_letter c \<and> \<not> is_whitespace c) v"
  then have "\<not> list_all (\<lambda>c. is_letter c \<or> is_whitespace c) v"
    by (auto simp: list_ex_iff list_all_iff)
  then show "validateAllergyInput v \<noteq> js ''''"
    by (simp only: validate_accepts) simp
next
  assume "trim v = []"
  then show "validateAllergyInput v = js ''This field is required''"
    by (rule blank_invalid)
next
  assume "length v < 2"
  then have "\<not> 2 \<le> length v" by simp
  then show "validateAllergyInput v \<noteq> js ''''"
    by (simp only: validate_accepts) simp
qed

theorem validateAllergyInput_verdicts_witness:
  "list_all (\<lambda>c. is_letter c \<or> is_whitespace c) (js '' Tree nuts'')
   \<and> 2 \<le> length (trim (js '' Tree nuts'')) \<and> validateAllergyInput (js '' Tree nuts'') = js ''''
   \<and> list_ex (\<lambda>c. \<not> is_letter c \<and> \<not> is_whitespace c) (js ''Milk!'')
   \<and> validateAllergyInput (js ''Milk!'') \<noteq> js ''''
   \<and> trim (js ''  '') = [] \<and> validateAllergyInput (js ''  '') = js ''This field is required''
   \<and> length (js ''a'') < 2 \<and> validateAllergyInput (js ''a'') \<noteq> js ''''"
  using validateAllergyInput_verdicts [of "js '' Tree nuts''"]
    validateAllergyInput_verdicts [of "js ''Milk!''"]
    validateAllergyInput_verdicts [of "js ''  ''"]
    validateAllergyInput_verdicts [of "js ''a''"]
  by (simp add: js_def is_whitespace_def is_letter_def trim_def)

text \<open>
  C4 as stated fails twice.  Two spaces are a string of letters and spaces only, of length
  2, and \<open>validateAllergyInput\<close> returns an error for it; \<open>a\<close> followed by a space has
  one character after trimming, and \<open>validateAllergyInput\<close> returns no error for it.
\<close>

theorem validateAllergyInput_counterexample:
  "list_all (\<lambda>c. is_letter c \<or> is_whitespace c) (js ''  '') \<and> 2 \<le> length (js ''  '')
   \<and> validateAllergyInput (js ''  '') = js ''This field is required''
   \<and> length (trim (js ''a '')) < 2 \<and> validateAllergyInput (js ''a '') = js ''''"
  by (simp add: validateAllergyInput_def eval_js)

section \<open>Adding and removing entries\<close>

lemma filter_distinct_length:
  "distinct (map f xs) \<Longrightarrow> length xs \<le> Suc (length (filter (\<lambda>x. f x \<noteq> i) xs))"
proof (induction xs)
  case Nil
  then show ?case by simp
next
  case (Cons x xs)
  show ?case
  proof (cases "f x = i")
    case True
    with Cons.prems have "i \<notin> f ` set xs" by auto
    then have "filter (\<lambda>x. f x \<noteq> i) xs = xs"
      by (auto simp: filter_id_conv)
    with True show ?thesis by simp
  next
    case False
    with Cons show ?thesis by simp
  qed
qed

lemma removeAllergyField_ok:
  assumes "allergyFields st \<noteq> []" and "distinct (map field_id (allergyFields st))"
  shows "allergyFields (removeAllergyField i st) \<noteq> []
         \<and> distinct (map field_id (allergyFields (removeAllergyField i st)))"
proof (cases "length (allergyFields st) > 1")
  case True
  from assms have "length (allergyFields st) \<le> Suc (length (filter (\<lambda>x. field_id x \<noteq> i) (allergyFields st)))"
    by (simp add: filter_distinct_length)
  with True have "filter (\<lambda>x. field_id x \<noteq> i) (allergyFields st) \<noteq> []"
    by auto
  with assms True show ?thesis
    by (simp add: removeAllergyField_def distinct_map_filter)
next
  case False
  with assms show ?thesis by (simp add: removeAllergyField_def)
qed

lemma addAllergyField_ok:
  assumes "distinct (map field_id (allergyFields st))"
    and "newId \<notin> set (map field_id (allergyFields st))"
  shows "allergyFields (addAllergyField newId st) \<noteq> []
         \<and> distinct (map field_id (allergyFields (addAllergyField newId st)))"
  using assms by (auto simp: addAllergyField_def)

lemma apply_ops_ok:
  "allergyFields st \<noteq> [] \<Longrightarrow> distinct (map field_id (allergyFields st)) \<Longrightarrow> fresh_ids ops st \<Longrightarrow>
     allergyFields (apply_ops ops st) \<noteq> []"
proof (induction ops arbitrary: st)
  case Nil
  then show ?case by simp
next
  case (Cons op ops)
  show ?case
  proof (cases op)
    case (AddEntry newId)
    with Cons.prems have "allergyFields (addAllergyField newId st) \<noteq> []
        \<and> distinct (map field_id (allergyFields (addAllergyField newId st)))"
      and "fresh_ids ops (addAllergyField newId st)"
      by (simp_all add: addAllergyField_ok)
    then show ?thesis using Cons.IH AddEntry by simp
  next
    case (RemoveEntry i)
    with Cons.prems have "allergyFields (removeAllergyField i st) \<noteq> []
        \<and> distinct (map field_id (allergyFields (removeAllergyField i st)))"
      and "fresh_ids ops (removeAllergyField i st)"
      by (simp_all add: removeAllergyField_ok)
    then show ?thesis using Cons.IH RemoveEntry by simp
  qed
qed

lemma length_filter_index: "length xs \<le> Suc (length (filter_index i xs))"
proof -
  have "distinct (map fst (zip [0 ..< length xs] xs))" by simp
  then have "length (zip [0 ..< length xs] xs)
      \<le> Suc (length (filter (\<lambda>p. fst p \<noteq> i) (zip [0 ..< length xs] xs)))"
    by (rule filter_distinct_length)
  then show ?thesis
    by (simp add: filter_index_def case_prod_unfold)
qed

lemma removeAllergyField_js_nonempty:
  "allergies_js st \<noteq> [] \<Longrightarrow> allergies_js (removeAllergyField_js i st) \<noteq> []"
  using length_filter_index [of "allergies_js st" i]
  by (auto simp: removeAllergyField_js_def)

lemma apply_ops_js_nonempty:
  "allergies_js st \<noteq> [] \<Longrightarrow> allergies_js (apply_ops_js ops st) \<noteq> []"
proof (induction ops arbitrary: st)
  case Nil
  then show ?case by simp
next
  case (Cons op ops)
  show ?case
  proof (cases op)
    case AddEntry_js
    have "allergies_js (addAllergyField_js st) \<noteq> []"
      by (simp add: addAllergyField_js_def)
    then show ?thesis using Cons.IH AddEntry_js by simp
  next
    case (RemoveEntry_js i)
    from Cons.prems have "allergies_js (removeAllergyField_js i st) \<noteq> []"
      by (rule removeAllergyField_js_nonempty)
    then show ?thesis using Cons.IH RemoveEntry_js by simp
  qed
qed

text \<open>
  The identifiers of the initial list are the decimal numbers from 1 on, which differ from
  one another.
\<close>

lemma unat_digit: "d < 10 \<Longrightarrow> unat (of_nat (48 + d) :: 16 word) = 48 + d"
proof -
  assume "d < 10"
  then have "(48 + d) mod 2 ^ LENGTH(16) = 48 + d" by simp
  moreover have "unat (of_nat (48 + d) :: 16 word) = (48 + d) mod 2 ^ LENGTH(16)"
    by (rule unat_of_nat)
  ultimately show ?thesis by (simp only:)
qed

lemma digits_value_snoc:
  "digits_value (s @ [c]) = 10 * digits_value s + (unat c - 48)"
  by (simp add: digits_value_def)

lemma digits_value_toString: "digits_value (number_toString n) = n"
proof (induction n rule: number_toString.induct)
  case (1 n)
  show ?case
  proof (cases "n < 10")
    case True
    then have "number_toString n = [of_nat (48 + n)]"
      by (subst number_toString.simps) (simp only: if_True)
    moreover have "digits_value [of_nat (48 + n) :: 16 word] = unat (of_nat (48 + n) :: 16 word) - 48"
      by (simp add: digits_value_def del: of_nat_add)
    ultimately show ?thesis
      using unat_digit [OF True] by (simp only:)
  next
    case False
    have "n mod 10 < 10" by simp
    then have d: "unat (of_nat (48 + n mod 10) :: 16 word) = 48 + n mod 10"
      by (rule unat_digit)
    from False have "number_toString n = number_toString (n div 10) @ [of_nat (48 + n mod 10)]"
      by (subst number_toString.simps) (simp only: if_False)
    then have "digits_value (number_toString n)
        = 10 * digits_value (number_toString (n div 10)) + (unat (of_nat (48 + n mod 10) :: 16 word) - 48)"
      by (simp only: digits_value_snoc)
    also have "\<dots> = 10 * (n div 10) + n mod 10"
      using 1 [OF False] by (simp only: d)
    also have "\<dots> = n" by simp
    finally show ?thesis .
  qed
qed

lemma number_toString_inj: "number_toString n = number_toString m \<Longrightarrow> n = m"
proof -
  assume "number_toString n = number_toString m"
  then have "digits_value (number_toString n) = digits_value (number_toString m)"
    by (rule arg_cong)
  then show "n = m"
    by (simp only: digits_value_toString)
qed

lemma initial_ids_distinct: "distinct (map field_id (initialAllergyFields p))"
proof -
  have inj: "inj_on (\<lambda>i. number_toString (i + 1)) A" for A
    by (rule inj_onI) (auto dest: number_toString_inj)
  have ids: "map field_id (map (\<lambda>(index, allergy).
                  \<lparr>field_id = number_toString (index + 1), field_value = allergy, field_error = js ''''\<rparr>)
                 (zip [0 ..< length xs] xs)) = map (\<lambda>i. number_toString (i + 1)) [0 ..< length xs]"
    for xs :: "js_string list"
  proof -
    have "map (\<lambda>x. number_toString (fst x + 1)) (zip [0 ..< length xs] xs)
          = map (\<lambda>i. number_toString (i + 1)) (map fst (zip [0 ..< length xs] xs))"
      by (simp only: map_map comp_def)
    also have "map fst (zip [0 ..< length xs] xs) = [0 ..< length xs]"
      by (rule map_fst_zip) simp
    finally show ?thesis
      by (simp add: case_prod_unfold comp_def)
  qed
  have d: "distinct (map (\<lambda>i. number_toString (i + 1)) [0 ..< n])" for n
    using inj by (simp only: distinct_map distinct_upt)
  show ?thesis
  proof (cases p)
    case None
    then show ?thesis by (simp add: initialAllergyFields_def)
  next
    case (Some u)
    show ?thesis
    proof (cases "length (profile_allergies u) > 0")
      case True
      with Some have "map field_id (initialAllergyFields p)
          = map (\<lambda>i. number_toString (i + 1)) [0 ..< length (profile_allergies u)]"
        by (simp only: initialAllergyFields_def option.case if_True ids)
      then show ?thesis by (simp only: d)
    next
      case False
      with Some show ?thesis by (simp add: initialAllergyFields_def)
    qed
  qed
qed

lemma initial_nonempty: "initialAllergyFields p \<noteq> []"
  by (auto simp: initialAllergyFields_def split: option.splits)

text \<open>
  C7.  Removing an entry from a list of exactly one entry changes nothing, whatever the
  identifier, and every sequence of additions and removals leaves at least one entry.
  In \<open>allergyForm/page.tsx\<close> entries are removed by identifier, so the second part rests on
  the identifiers being distinct, as they are when each added entry gets a fresh one from
  \<open>crypto.randomUUID()\<close>, from the initial list on; in \<open>components/AllergyForm.js\<close>
  entries are removed by index and nothing is assumed.
\<close>

theorem removeEntry_keeps_one_entry:
  "(length (allergyFields st) = 1 \<longrightarrow> removeAllergyField i st = st)
   \<and> (allergyFields st \<noteq> [] \<and> distinct (map field_id (allergyFields st)) \<and> fresh_ids ops st
        \<longrightarrow> allergyFields (apply_ops ops st) \<noteq> [])
   \<and> (allergyFields st = initialAllergyFields p \<and> fresh_ids ops st
        \<longrightarrow> allergyFields (apply_ops ops st) \<noteq> [])
   \<and> (length (allergies_js st') = 1 \<longrightarrow> removeAllergyField_js index st' = st')
   \<and> (allergies_js st' \<noteq> [] \<longrightarrow> allergies_js (apply_ops_js ops' st') \<noteq> [])"
  using apply_ops_ok [of st ops] apply_ops_js_nonempty [of st' ops']
    initial_nonempty [of p] initial_ids_distinct [of p]
  by (auto simp: removeAllergyField_def removeAllergyField_js_def)

theorem removeEntry_keeps_one_entry_witness:
  "length (allergyFields fresh_form) = 1
   \<and> removeAllergyField (js ''1'') fresh_form = fresh_form
   \<and> allergyFields fresh_form \<noteq> [] \<and> distinct (map field_id (allergyFields fresh_form))
   \<and> fresh_ids [AddEntry (js ''7c9e6679''), RemoveEntry (js ''1''), RemoveEntry (js ''7c9e6679'')] fresh_form
   \<and> allergyFields (apply_ops [AddEntry (js ''7c9e6679''), RemoveEntry (js ''1''),
                               RemoveEntry (js ''7c9e6679'')] fresh_form) \<noteq> []
   \<and> length (allergies_js \<lparr>allergies_js = [js ''''], errors_js = []\<rparr>) = 1
   \<and> removeAllergyField_js 0 \<lparr>allergies_js = [js ''''], errors_js = []\<rparr>
       = \<lparr>allergies_js = [js ''''], errors_js = []\<rparr>
   \<and> allergies_js (apply_ops_js [AddEntry_js, RemoveEntry_js 0, RemoveEntry_js 0]
                      \<lparr>allergies_js = [js ''''], errors_js = []\<rparr>) \<noteq> []"
  using removeEntry_keeps_one_entry
    [of fresh_form "js ''1''"
        "[AddEntry (js ''7c9e6679''), RemoveEntry (js ''1''), RemoveEntry (js ''7c9e6679'')]" None
        "\<lparr>allergies_js = [js ''''], errors_js = []\<rparr>" 0
        "[AddEntry_js, RemoveEntry_js 0, RemoveEntry_js 0]"]
  by (simp add: fresh_form_def blank_entry_form_def initialAllergyFields_def
      addAllergyField_def removeAllergyField_def)

section \<open>Submitting the form\<close>

lemma updated_error_truthy:
  "list_ex (\<lambda>field. truthy (field_error field)) (updatedAllergyFields fs)
     = (\<not> list_all (\<lambda>field. validateAllergyInput (field_value field) = js '''') fs)"
  by (induction fs) (simp_all add: updatedAllergyFields_def truthy_def)

lemma hasValid_updated:
  "hasValidAllergy (updatedAllergyFields fs)
     = list_ex (\<lambda>field. truthy (trim (field_value field))
                  \<and> validateAllergyInput (field_value field) = js '''') fs"
  by (induction fs) (simp_all add: updatedAllergyFields_def hasValidAllergy_def truthy_def)

lemma hasValid_updated_valid:
  "hasValidAllergy (updatedAllergyFields fs)
     = list_ex (\<lambda>field. validateAllergyInput (field_value field) = js '''') fs"
  unfolding hasValid_updated
  by (induction fs) (auto dest: validate_ok_trim)

lemma validateAllFields_fst:
  "fst (validateAllFields st) \<longleftrightarrow>
     \<not> truthy (validateName (name (formData st))) \<and> \<not> truthy (validateEmail (email (formData st)))
     \<and> hasValidAllergy (updatedAllergyFields (allergyFields st))
     \<and> \<not> list_ex (\<lambda>field. truthy (field_error field)) (updatedAllergyFields (allergyFields st))"
  by (simp add: validateAllFields_def Let_def)

lemma validateAllFields_snd:
  "snd (validateAllFields st) =
     st\<lparr>allergyFields := updatedAllergyFields (allergyFields st),
        formErrors := \<lparr>name_error = validateName (name (formData st)),
                       email_error = validateEmail (email (formData st)),
                       emergencyContact_error = js '''',
                       allergies_error =
                         (if hasValidAllergy (updatedAllergyFields (allergyFields st)) then js ''''
                          else js ''At least one allergy must be provided'')\<rparr>\<rparr>"
  by (simp add: validateAllFields_def Let_def)

lemma all_valid_ex: "list_all P fs \<Longrightarrow> fs \<noteq> [] \<Longrightarrow> list_ex P fs"
  by (cases fs) simp_all

lemma validateAllFields_verdict:
  "fst (validateAllFields st) \<longleftrightarrow>
     validateName (name (formData st)) = js '''' \<and> validateEmail (email (formData st)) = js ''''
     \<and> allergyFields st \<noteq> []
     \<and> list_all (\<lambda>field. validateAllergyInput (field_value field) = js '''') (allergyFields st)"
  unfolding validateAllFields_fst updated_error_truthy hasValid_updated_valid
  using all_valid_ex [of "\<lambda>field. validateAllergyInput (field_value field) = js ''''" "allergyFields st"]
  by (cases "allergyFields st") (auto simp: truthy_def)

lemma handleSubmit_rejected:
  "\<not> fst (validateAllFields (st\<lparr>isSubmitting := True\<rparr>)) \<Longrightarrow>
     handleSubmit now st = (snd (validateAllFields (st\<lparr>isSubmitting := True\<rparr>)))\<lparr>isSubmitting := False\<rparr>"
  by (cases "validateAllFields (st\<lparr>isSubmitting := True\<rparr>)") (simp add: handleSubmit_def)

lemma handleSubmit_accepted:
  "fst (validateAllFields (st\<lparr>isSubmitting := True\<rparr>)) \<Longrightarrow>
     handleSubmit now st =
       (snd (validateAllFields (st\<lparr>isSubmitting := True\<rparr>)))
         \<lparr>userProfile := Some \<lparr>profile_name = trim (name (formData st)),
                 profile_email = trim (email (formData st)),
                 profile_emergencyContact = trim (emergencyContact (formData st)),
                 profile_allergies = map (\<lambda>field. trim (field_value field))
                   (filter (\<lambda>field. truthy (trim (field_value field)) \<and> \<not> truthy (field_error field))
                      (allergyFields st)),
                 profile_submittedAt = Some now\<rparr>,
          pushed := Some (js ''/menuInput''),
          isSubmitting := False\<rparr>"
  by (cases "validateAllFields (st\<lparr>isSubmitting := True\<rparr>)") (simp add: handleSubmit_def Let_def)

lemma filter_all_valid:
  assumes "list_all (\<lambda>field. validateAllergyInput (field_value field) = js '''') fs"
    and "errors_shown fs"
  shows "filter (\<lambda>field. truthy (trim (field_value field)) \<and> \<not> truthy (field_error field)) fs = fs"
  using assms
  by (induction fs) (auto simp: errors_shown_def truthy_def dest: validate_ok_trim)

lemma updated_blank:
  "field \<in> set (updatedAllergyFields fs) \<Longrightarrow> trim (field_value field) = [] \<Longrightarrow>
     field_error field = js ''This field is required''"
  by (auto simp: updatedAllergyFields_def validateAllergyInput_def truthy_def)

lemmas eval_form = validateAllFields_def handleSubmit_def updatedAllergyFields_def hasValidAllergy_def
  validateAllergyInput_def validateName_def validateEmail_def emailRegex_def email_atom_def eval_js Let_def

text \<open>
  The invariant \<open>errors_shown\<close> holds of the initial list of fields and is kept by every
  handler that changes the list.
\<close>

lemma errors_shown_initial: "errors_shown (initialAllergyFields p)"
  by (auto simp: errors_shown_def initialAllergyFields_def list_all_iff split: option.splits
      dest!: set_zip_rightD)

lemma errors_shown_handlers:
  assumes "errors_shown (allergyFields st)"
  shows "errors_shown (allergyFields (handleAllergyChange i v st))"
    and "errors_shown (allergyFields (addAllergyField newId st))"
    and "errors_shown (allergyFields (removeAllergyField i st))"
    and "errors_shown (allergyFields (snd (validateAllFields st)))"
    and "errors_shown (allergyFields (handleSubmit now st))"
proof -
  show "errors_shown (allergyFields (handleAllergyChange i v st))"
    using assms by (auto simp: errors_shown_def handleAllergyChange_def list_all_iff)
  show "errors_shown (allergyFields (addAllergyField newId st))"
    using assms by (auto simp: errors_shown_def addAllergyField_def list_all_iff)
  show "errors_shown (allergyFields (removeAllergyField i st))"
    using assms by (auto simp: errors_shown_def removeAllergyField_def list_all_iff)
  show v: "errors_shown (allergyFields (snd (validateAllFields st)))" for st
    by (auto simp: validateAllFields_snd errors_shown_def updatedAllergyFields_def list_all_iff)
  show "errors_shown (allergyFields (handleSubmit now st))"
    using v [of "st\<lparr>isSubmitting := True\<rparr>"]
    by (cases "fst (validateAllFields (st\<lparr>isSubmitting := True\<rparr>))")
       (simp_all add: handleSubmit_rejected handleSubmit_accepted)
qed

text \<open>
  C8.  When no allergy entry is both non-blank and free of error, \<open>handleSubmit\<close> sets the
  error of the allergies section and stops before it assembles a profile: the stored
  profile and the route are what they were, and so are the fields the user typed.
\<close>

theorem submit_without_valid_allergy:
  assumes "\<not> list_ex (\<lambda>field. truthy (trim (field_value field))
                          \<and> validateAllergyInput (field_value field) = js '''') (allergyFields st)"
  shows "allergies_error (formErrors (handleSubmit now st)) = js ''At least one allergy must be provided''
         \<and> userProfile (handleSubmit now st) = userProfile st
         \<and> pushed (handleSubmit now st) = pushed st
         \<and> formData (handleSubmit now st) = formData st
         \<and> map field_value (allergyFields (handleSubmit now st)) = map field_value (allergyFields st)
         \<and> \<not> isSubmitting (handleSubmit now st)"
proof -
  from assms have nv: "\<not> hasValidAllergy (updatedAllergyFields (allergyFields st))"
    by (simp add: hasValid_updated)
  then have "\<not> fst (validateAllFields (st\<lparr>isSubmitting := True\<rparr>))"
    by (simp add: validateAllFields_fst)
  then have "handleSubmit now st
      = (snd (validateAllFields (st\<lparr>isSubmitting := True\<rparr>)))\<lparr>isSubmitting := False\<rparr>"
    by (rule handleSubmit_rejected)
  with nv show ?thesis
    by (simp add: validateAllFields_snd updatedAllergyFields_def comp_def)
qed

theorem submit_without_valid_allergy_witness:
  "\<not> list_ex (\<lambda>field. truthy (trim (field_value field))
                 \<and> validateAllergyInput (field_value field) = js '''') (allergyFields fresh_form)
   \<and> allergies_error (formErrors (handleSubmit (js ''2025-01-01T00:00:00.000Z'') fresh_form))
       = js ''At least one allergy must be provided''
   \<and> userProfile (handleSubmit (js ''2025-01-01T00:00:00.000Z'') fresh_form) = None
   \<and> pushed (handleSubmit (js ''2025-01-01T00:00:00.000Z'') fresh_form) = None"
  using submit_without_valid_allergy [of fresh_form "js ''2025-01-01T00:00:00.000Z''"]
  by (simp add: fresh_form_def blank_entry_form_def initialAllergyFields_def truthy_def trim_def)

text \<open>
  C2 (as amended).  When the name and the email are valid and every allergy entry is valid,
  none of them blank, \<open>handleSubmit\<close> stores a profile whose allergies are the trimmed
  entries, in their order, and goes to the lookup page.  A blank entry is not a spare one:
  it is given the error \<open>This field is required\<close> and the submission stops, with no
  profile stored, whatever the other entries are.
\<close>

theorem submit_all_entries_valid:
  "(validateName (name (formData st)) = js '''' \<and> validateEmail (email (formData st)) = js ''''
      \<and> allergyFields st \<noteq> []
      \<and> list_all (\<lambda>field. validateAllergyInput (field_value field) = js '''') (allergyFields st)
      \<and> errors_shown (allergyFields st)
    \<longrightarrow> userProfile (handleSubmit now st) =
          Some \<lparr>profile_name = trim (name (formData st)),
                profile_email = trim (email (formData st)),
                profile_emergencyContact = trim (emergencyContact (formData st)),
                profile_allergies = map (\<lambda>field. trim (field_value field)) (allergyFields st),
                profile_submittedAt = Some now\<rparr>
        \<and> pushed (handleSubmit now st) = Some (js ''/menuInput''))
   \<and> (list_ex (\<lambda>field. trim (field_value field) = []) (allergyFields st)
    \<longrightarrow> userProfile (handleSubmit now st) = userProfile st
        \<and> pushed (handleSubmit now st) = pushed st
        \<and> list_all (\<lambda>field. trim (field_value field) = []
                       \<longrightarrow> field_error field = js ''This field is required'')
             (allergyFields (handleSubmit now st)))"
proof (intro conjI impI)
  assume h: "validateName (name (formData st)) = js '''' \<and> validateEmail (email (formData st)) = js ''''
      \<and> allergyFields st \<noteq> []
      \<and> list_all (\<lambda>field. validateAllergyInput (field_value field) = js '''') (allergyFields st)
      \<and> errors_shown (allergyFields st)"
  then have "fst (validateAllFields (st\<lparr>isSubmitting := True\<rparr>))"
    by (simp add: validateAllFields_verdict)
  then have eq: "handleSubmit now st =
       (snd (validateAllFields (st\<lparr>isSubmitting := True\<rparr>)))
         \<lparr>userProfile := Some \<lparr>profile_name = trim (name (formData st)),
                 profile_email = trim (email (formData st)),
                 profile_emergencyContact = trim (emergencyContact (formData st)),
                 profile_allergies = map (\<lambda>field. trim (field_value field))
                   (filter (\<lambda>field. truthy (trim (field_value field)) \<and> \<not> truthy (field_error field))
                      (allergyFields st)),
                 profile_submittedAt = Some now\<rparr>,
          pushed := Some (js ''/menuInput''),
          isSubmitting := False\<rparr>"
    by (rule handleSubmit_accepted)
  from h have "filter (\<lambda>field. truthy (trim (field_value field)) \<and> \<not> truthy (field_error field))
                 (allergyFields st) = allergyFields st"
    by (simp add: filter_all_valid)
  with eq show "userProfile (handleSubmit now st) =
          Some \<lparr>profile_name = trim (name (formData st)),
                profile_email = trim (email (formData st)),
                profile_emergencyContact = trim (emergencyContact (formData st)),
                profile_allergies = map (\<lambda>field. trim (field_value field)) (allergyFields st),
                profile_submittedAt = Some now\<rparr>"
    by simp
  from eq show "pushed (handleSubmit now st) = Some (js ''/menuInput'')"
    by simp
next
  assume "list_ex (\<lambda>field. trim (field_value field) = []) (allergyFields st)"
  then obtain f where f: "f \<in> set (allergyFields st)" "trim (field_value f) = []"
    by (auto simp: list_ex_iff)
  then have "validateAllergyInput (field_value f) \<noteq> js ''''"
    by (simp add: blank_invalid)
  with f have "\<not> list_all (\<lambda>field. validateAllergyInput (field_value field) = js '''') (allergyFields st)"
    by (auto simp: list_all_iff)
  then have "\<not> fst (validateAllFields (st\<lparr>isSubmitting := True\<rparr>))"
    by (simp add: validateAllFields_verdict)
  then have eq: "handleSubmit now st
      = (snd (validateAllFields (st\<lparr>isSubmitting := True\<rparr>)))\<lparr>isSubmitting := False\<rparr>"
    by (rule handleSubmit_rejected)
  then show "userProfile (handleSubmit now st) = userProfile st"
    by (simp add: validateAllFields_snd)
  from eq show "pushed (handleSubmit now st) = pushed st"
    by (simp add: validateAllFields_snd)
  from eq show "list_all (\<lambda>field. trim (field_value field) = []
                            \<longrightarrow> field_error field = js ''This field is required'')
             (allergyFields (handleSubmit now st))"
    by (simp add: validateAllFields_snd list_all_iff updated_blank)
qed

theorem submit_all_entries_valid_witness:
  "validateName (name (formData peanuts_form)) = js ''''
   \<and> validateEmail (email (formData peanuts_form)) = js ''''
   \<and> allergyFields peanuts_form \<noteq> []
   \<and> list_all (\<lambda>field. validateAllergyInput (field_value field) = js '''') (allergyFields peanuts_form)
   \<and> errors_shown (allergyFields peanuts_form)
   \<and> userProfile (handleSubmit (js ''2025-01-01T00:00:00.000Z'') peanuts_form) =
        Some \<lparr>profile_name = js ''Sam Lee'', profile_email = js ''sam@example.com'',
              profile_emergencyContact = js '''', profile_allergies = [js ''Peanuts''],
              profile_submittedAt = Some (js ''2025-01-01T00:00:00.000Z'')\<rparr>
   \<and> list_ex (\<lambda>field. trim (field_value field) = []) (allergyFields blank_entry_form)
   \<and> userProfile (handleSubmit (js ''2025-01-01T00:00:00.000Z'') blank_entry_form) = None"
  using submit_all_entries_valid [of peanuts_form "js ''2025-01-01T00:00:00.000Z''"]
    submit_all_entries_valid [of blank_entry_form "js ''2025-01-01T00:00:00.000Z''"]
  by (simp add: peanuts_form_def blank_entry_form_def errors_shown_def validateAllergyInput_def
      validateName_def validateEmail_def emailRegex_def email_atom_def eval_js)

text \<open>
  C2 as stated fails: with the valid entry \<open>Peanuts\<close> and a second, blank entry, the
  submission is stopped, no profile is stored, and the blank entry is flagged.
\<close>

theorem blank_entry_blocks_submit:
  "validateAllergyInput (js ''Peanuts'') = js ''''
   \<and> userProfile (handleSubmit (js ''2025-01-01T00:00:00.000Z'') blank_entry_form) = None
   \<and> map field_error (allergyFields (handleSubmit (js ''2025-01-01T00:00:00.000Z'') blank_entry_form))
       = [js '''', js ''This field is required'']"
  by (simp add: blank_entry_form_def eval_form)

section \<open>The lookup call\<close>

text \<open>
  C3.  When the API key or the endpoint is missing (unset or empty), the call rejects with
  an error whose message names the missing variable, and the list of requests sent is what
  it was: nothing is sent to the service, whatever the restaurant, the allergies and the
  service.  This holds of both versions of the function.
\<close>

theorem missing_config_fails_before_request:
  "(falsy (env ''AZURE_OPENAI_API_KEY'') \<or> falsy (env ''AZURE_OPENAI_ENDPOINT'')
      \<longrightarrow> snd (getSafeFoodsByRestaurantName_server env service r a sent) = sent
        \<and> fst (getSafeFoodsByRestaurantName_server env service r a sent) =
            Inl (Error (if falsy (env ''AZURE_OPENAI_API_KEY'')
                        then js ''AZURE_OPENAI_API_KEY environment variable is required''
                        else js ''AZURE_OPENAI_ENDPOINT environment variable is required'')))
   \<and> (falsy (or_else (env ''AZURE_OPENAI_API_KEY'') (env ''NEXT_PUBLIC_AZURE_OPENAI_API_KEY''))
        \<or> falsy (or_else (env ''AZURE_OPENAI_ENDPOINT'') (env ''NEXT_PUBLIC_AZURE_OPENAI_ENDPOINT''))
      \<longrightarrow> snd (getSafeFoodsByRestaurantName env service r a sent) = sent
        \<and> fst (getSafeFoodsByRestaurantName env service r a sent) =
            Inl (Error (if falsy (or_else (env ''AZURE_OPENAI_API_KEY'')
                                    (env ''NEXT_PUBLIC_AZURE_OPENAI_API_KEY''))
                        then js ''Missing required environment variable: AZURE_OPENAI_API_KEY''
                        else js ''Missing required environment variable: AZURE_OPENAI_ENDPOINT'')))"
  by (simp add: getSafeFoodsByRestaurantName_server_def getSafeFoodsByRestaurantName_def Let_def)

theorem missing_config_fails_before_request_witness:
  "falsy (unset_env ''AZURE_OPENAI_API_KEY'')
   \<and> getSafeFoodsByRestaurantName_server unset_env (answering None) (js ''Olive Garden'')
        (Some [js ''shellfish'']) []
       = (Inl (Error (js ''AZURE_OPENAI_API_KEY environment variable is required'')), [])
   \<and> getSafeFoodsByRestaurantName unset_env (answering None) (js ''Olive Garden'')
        (Some [js ''shellfish'']) []
       = (Inl (Error (js ''Missing required environment variable: AZURE_OPENAI_API_KEY'')), [])"
  using missing_config_fails_before_request
    [of unset_env "answering None" "js ''Olive Garden''" "Some [js ''shellfish'']" "[]"]
  by (simp add: unset_env_def falsy_def or_else_def prod_eq_iff)

text \<open>
  C5.  The allergy text of the prompt is the list joined with a comma and a space when the
  list is not empty, and \<open>no specific allergies mentioned\<close> when it is empty or absent; with
  the configuration present, the one request sent carries it in its user message, between
  \<open>I have allergies to: \<close> and the sentence that names the restaurant.  This holds of both
  versions of the function.
\<close>

theorem prompt_embeds_allergy_text:
  "allergiesList a =
     (if a = None \<or> a = Some [] then js ''no specific allergies mentioned''
      else join (js '', '') (the a))
   \<and> (\<not> falsy (env ''AZURE_OPENAI_API_KEY'') \<and> \<not> falsy (env ''AZURE_OPENAI_ENDPOINT'')
        \<longrightarrow> (\<exists>req. snd (getSafeFoodsByRestaurantName_server env service r a sent) = sent @ [req]
              \<and> map content (messages req) =
                   [systemContent,
                    js ''I have allergies to: '' @ allergiesList a @ js ''. I am planning to eat at '' @ r
                      @ userContent_tail]))
   \<and> (\<not> falsy (or_else (env ''AZURE_OPENAI_API_KEY'') (env ''NEXT_PUBLIC_AZURE_OPENAI_API_KEY''))
        \<and> \<not> falsy (or_else (env ''AZURE_OPENAI_ENDPOINT'') (env ''NEXT_PUBLIC_AZURE_OPENAI_ENDPOINT''))
        \<longrightarrow> (\<exists>req. snd (getSafeFoodsByRestaurantName env service r a sent) = sent @ [req]
              \<and> map content (messages req) =
                   [systemContent,
                    js ''I have allergies to: '' @ allergiesList a @ js ''. I am planning to eat at '' @ r
                      @ userContent_tail]))"
  by (cases a) (simp_all add: allergiesList_def getSafeFoodsByRestaurantName_server_def
      getSafeFoodsByRestaurantName_def Let_def chatRequest_def userContent_def)

theorem prompt_embeds_allergy_text_witness:
  "\<not> falsy (configured_env ''AZURE_OPENAI_API_KEY'') \<and> \<not> falsy (configured_env ''AZURE_OPENAI_ENDPOINT'')
   \<and> allergiesList (Some [js ''shellfish'']) = js ''shellfish''
   \<and> allergiesList (Some [js ''shellfish'', js ''tree nuts'']) = js ''shellfish, tree nuts''
   \<and> (\<exists>req. snd (getSafeFoodsByRestaurantName_server configured_env (answering None)
                        (js ''Olive Garden'') (Some [js ''shellfish'']) []) = [req]
         \<and> content (messages req ! 1) =
             js ''I have allergies to: shellfish. I am planning to eat at Olive Garden'' @ userContent_tail)"
  using prompt_embeds_allergy_text
    [of "Some [js ''shellfish'']" configured_env "answering None" "js ''Olive Garden''" "[]"]
    prompt_embeds_allergy_text
    [of "Some [js ''shellfish'', js ''tree nuts'']" configured_env "answering None"
        "js ''Olive Garden''" "[]"]
  by (auto simp: configured_env_def falsy_def or_else_def js_def)

section \<open>The lookup page\<close>

lemma js_append: "js a @ js b = js (a @ b)"
  by (simp add: js_def)

lemma validateAndProceed_text:
  assumes "selectedOption st = js ''text''" and "truthy (trim (restaurantName st))"
    and "lookup (trim (restaurantName st)) ua = Inr r"
  shows "validateAndProceed lookup JSON_parse ua st =
     (case JSON_parse (if falsy r then emptyResponse else the r) of
        Inl parseError \<Rightarrow>
          st\<lparr>isProcessing := False,
             error := js ''Unable to parse response from AI service. Please try again.'',
             menuData := JNull, showResults := False\<rparr>
      | Inr parsedData \<Rightarrow>
          st\<lparr>isProcessing := False, error := js '''', menuData := parsedData, showResults := True\<rparr>)"
  using assms
  by (simp add: validateAndProceed_def Let_def split: sum.splits)

lemma get_prop_not_null: "v \<noteq> JNull \<Longrightarrow> \<exists>x. get_prop v k = Inr x"
  by (cases v) simp_all

lemma filter_foods_eq:
  "JNull \<notin> set foods \<Longrightarrow>
     filter_foods c foods =
       Inr (filter (\<lambda>food. get_prop food (js ''safetyClassification'') = Inr (Some (JStr c))) foods)"
proof (induction foods)
  case Nil
  then show ?case by simp
next
  case (Cons food foods)
  then have "food \<noteq> JNull" by auto
  then obtain v where v: "get_prop food (js ''safetyClassification'') = Inr v"
    using get_prop_not_null by blast
  with Cons show ?case
    by (simp add: in_category_def)
qed

lemma categoryFoods_eq:
  assumes "get_prop data (js ''foods'') = Inr (Some (JArr foods))" and "JNull \<notin> set foods"
  shows "categoryFoods data c =
       Inr (filter (\<lambda>food. get_prop food (js ''safetyClassification'') = Inr (Some (JStr c))) foods)"
  using assms by (simp add: categoryFoods_def filter_foods_eq)

lemma categoryFoods_not_array:
  assumes "\<forall>foods. get_prop data (js ''foods'') \<noteq> Inr (Some (JArr foods))"
  shows "\<exists>e. categoryFoods data c = Inl e \<and> error_name e = js ''TypeError''"
proof (cases "get_prop data (js ''foods'')")
  case (Inl e)
  then show ?thesis
    by (cases data) (auto simp: categoryFoods_def TypeError_def)
next
  case (Inr x)
  show ?thesis
  proof (cases x)
    case None
    with Inr show ?thesis by (simp add: categoryFoods_def TypeError_def)
  next
    case (Some v)
    with Inr assms have "\<forall>foods. v \<noteq> JArr foods" by simp
    with Inr Some show ?thesis
      by (cases v) (simp_all add: categoryFoods_def TypeError_def)
  qed
qed

lemma render_categories_eq:
  assumes "get_prop data (js ''foods'') = Inr (Some (JArr foods))" and "JNull \<notin> set foods"
  shows "render_categories data ex cs =
       Inr (filter (\<lambda>(c, fs, e). fs \<noteq> [])
              (map (\<lambda>c. (c, filter (\<lambda>food. get_prop food (js ''safetyClassification'')
                                              = Inr (Some (JStr c))) foods, ex c)) cs))"
  by (induction cs) (simp_all add: categoryFoods_eq [OF assms])



lemma card_valid_total: "food \<noteq> JNull \<Longrightarrow> \<exists>b. card_valid food = Inr b"
  by (cases food) (auto simp: card_valid_def)

lemma cards_valid_total: "JNull \<notin> set fs \<Longrightarrow> \<exists>b. cards_valid fs = Inr b"
proof (induction fs)
  case Nil
  show ?case by (rule exI [of _ True]) simp
next
  case (Cons food fs)
  then obtain b where b: "cards_valid fs = Inr b" by auto
  from Cons.prems have "food \<noteq> JNull" by auto
  then obtain a where "card_valid food = Inr a"
    using card_valid_total by blast
  with b show ?case by auto
qed

lemma sections_valid_total:
  "\<forall>s \<in> set shown. JNull \<notin> set (fst (snd s)) \<Longrightarrow> \<exists>b. sections_valid shown = Inr b"
proof (induction shown)
  case Nil
  show ?case by (rule exI [of _ True]) simp
next
  case (Cons s shown)
  obtain c fs e where s: "s = (c, fs, e)" by (cases s) auto
  from Cons obtain b where b: "sections_valid shown = Inr b" by auto
  from Cons.prems s have "JNull \<notin> set fs" by simp
  then obtain a where "cards_valid fs = Inr a"
    using cards_valid_total by blast
  with b s show ?case by simp
qed


lemmas eval_lookup = lookup_with_def getSafeFoodsByRestaurantName_def configured_env_def or_else_def
  falsy_def answering_def responseText_def Let_def

lemmas eval_examples = JSON_parse_examples_def emptyResponse_def unknown_tier_text_def
  no_foods_text_def object_info_text_def not_json_text_def unknown_tier_menu_def
  unknown_tier_food_def salad_food_def no_foods_menu_def object_info_menu_def empty_menu_def
  diner_page_def initially_expanded_def

lemmas eval_display = results_display_def categories_def categoryFoods_def in_category_def
  card_valid_def valid_child_opt_def guarded_child_def truthy_opt_def child_error_def



text \<open>
  A response whose restaurant name or restaurant information React does not accept is
  stored with no error as well, and rendering the display throws in React.
\<close>

lemma invalid_child_throws:
  assumes "selectedOption st = js ''text''" and "truthy (trim (restaurantName st))"
    and "lookup (trim (restaurantName st)) ua = Inr (Some txt)" and "txt \<noteq> []"
    and "JSON_parse txt = Inr data"
    and "get_prop data (js ''foods'') = Inr (Some (JArr foods))" and "JNull \<notin> set foods"
    and "get_prop data (js ''restaurantName'') = Inr nm"
    and "get_prop data (js ''restaurantInfo'') = Inr info"
    and "\<not> (valid_child_opt nm \<and> guarded_child info)"
  shows "error (validateAndProceed lookup JSON_parse ua st) = js ''''
       \<and> results_display ua (validateAndProceed lookup JSON_parse ua st) = Inl child_error"
proof -
  from assms(6) have obj: "json_truthy data"
    by (cases data) simp_all
  from assms(1-5) have eq: "validateAndProceed lookup JSON_parse ua st =
      st\<lparr>isProcessing := False, error := js '''', menuData := data, showResults := True\<rparr>"
    by (simp add: validateAndProceed_text falsy_def)
  let ?shown = "filter (\<lambda>(c, fs, e). fs \<noteq> [])
              (map (\<lambda>c. (c, filter (\<lambda>food. get_prop food (js ''safetyClassification'')
                                              = Inr (Some (JStr c))) foods,
                          expandedCategories st c)) categories)"
  have rc: "render_categories data (expandedCategories st) categories = Inr ?shown"
    using assms(6,7) by (rule render_categories_eq)
  from assms(7) have "\<forall>s \<in> set ?shown. JNull \<notin> set (fst (snd s))"
    by auto
  then obtain b where sv: "sections_valid ?shown = Inr b"
    using sections_valid_total by blast
  from assms(1,8-10) obj show ?thesis
    unfolding eq by (auto simp: results_display_def truthy_def rc sv)
qed

text \<open>So it is for the response whose restaurant information is an object.\<close>

lemma object_child_throws:
  "error (validateAndProceed (lookup_with configured_env (answering (Some object_info_text)))
            JSON_parse_examples [js ''peanuts''] diner_page) = js ''''
   \<and> results_display [js ''peanuts'']
        (validateAndProceed (lookup_with configured_env (answering (Some object_info_text)))
           JSON_parse_examples [js ''peanuts''] diner_page) = Inl child_error"
  by (simp add: validateAndProceed_def eval_display eval_lookup eval_examples eval_js)

lemma display_not_array:
  assumes "truthy (selectedOption st)" and "showResults st" and "json_truthy (menuData st)"
    and "\<forall>foods. get_prop (menuData st) (js ''foods'') \<noteq> Inr (Some (JArr foods))"
  shows "\<exists>e. results_display ua st = Inl e \<and> error_name e = js ''TypeError''"
proof -
  from assms(3) have nn: "menuData st \<noteq> JNull" by auto
  obtain nm where nm: "get_prop (menuData st) (js ''restaurantName'') = Inr nm"
    using get_prop_not_null [OF nn] by blast
  obtain info where info: "get_prop (menuData st) (js ''restaurantInfo'') = Inr info"
    using get_prop_not_null [OF nn] by blast
  obtain e where e: "categoryFoods (menuData st) (js ''More Safe'') = Inl e"
      "error_name e = js ''TypeError''"
    using categoryFoods_not_array [OF assms(4)] by blast
  then have "render_categories (menuData st) (expandedCategories st) categories = Inl e"
    by (simp add: categories_def)
  with assms(1-3) nm info e(2) show ?thesis
    by (simp add: results_display_def)
qed

text \<open>
  C6 (as amended).  On the text option with a restaurant name, once the call has returned:
  an empty or \<open>null\<close> response is replaced by the text of an empty menu, which is stored
  and displayed as a result with no section; a response on which \<open>JSON.parse\<close> throws sets
  the error \<open>Unable to parse response from AI service. Please try again.\<close>, and no result
  is stored or displayed; a response that \<open>JSON.parse\<close> accepts raises no error, whatever
  its shape: the value is stored and the results are switched on, and then the results
  panel is not rendered when the value is falsy, and rendering it throws a \<open>TypeError\<close>
  when the value is truthy and its \<open>foods\<close> is not an array.
\<close>

theorem empty_response_and_parse_failure:
  assumes "selectedOption st = js ''text''" and "truthy (trim (restaurantName st))"
    and "lookup (trim (restaurantName st)) ua = Inr r"
  shows
    "(falsy r \<and> JSON_parse emptyResponse = Inr empty_menu
        \<longrightarrow> menuData (validateAndProceed lookup JSON_parse ua st) = empty_menu
          \<and> showResults (validateAndProceed lookup JSON_parse ua st)
          \<and> error (validateAndProceed lookup JSON_parse ua st) = js ''''
          \<and> results_display ua (validateAndProceed lookup JSON_parse ua st) =
              Inr (Some \<lparr>panel_heading = Some (JStr (js '''')), panel_information = None,
                         panel_allergies = (if ua = [] then None else Some (join (js '', '') ua)),
                         panel_sections = []\<rparr>))
     \<and> (\<not> falsy r \<and> JSON_parse (the r) = Inl e
        \<longrightarrow> error (validateAndProceed lookup JSON_parse ua st)
              = js ''Unable to parse response from AI service. Please try again.''
          \<and> menuData (validateAndProceed lookup JSON_parse ua st) = JNull
          \<and> \<not> showResults (validateAndProceed lookup JSON_parse ua st)
          \<and> \<not> isProcessing (validateAndProceed lookup JSON_parse ua st)
          \<and> results_display ua (validateAndProceed lookup JSON_parse ua st) = Inr None)
     \<and> (\<not> falsy r \<and> JSON_parse (the r) = Inr v
        \<longrightarrow> error (validateAndProceed lookup JSON_parse ua st) = js ''''
          \<and> menuData (validateAndProceed lookup JSON_parse ua st) = v
          \<and> showResults (validateAndProceed lookup JSON_parse ua st)
          \<and> (\<not> json_truthy v
              \<longrightarrow> results_display ua (validateAndProceed lookup JSON_parse ua st) = Inr None)
          \<and> (json_truthy v \<and> (\<forall>foods. get_prop v (js ''foods'') \<noteq> Inr (Some (JArr foods)))
              \<longrightarrow> (\<exists>x. results_display ua (validateAndProceed lookup JSON_parse ua st) = Inl x
                       \<and> error_name x = js ''TypeError'')))"
proof (intro conjI impI)
  note eq = validateAndProceed_text [of st lookup ua r JSON_parse, OF assms]
  {
    assume "falsy r \<and> JSON_parse emptyResponse = Inr empty_menu"
    then have st': "validateAndProceed lookup JSON_parse ua st =
        st\<lparr>isProcessing := False, error := js '''', menuData := empty_menu, showResults := True\<rparr>"
      by (simp add: eq)
    show "menuData (validateAndProceed lookup JSON_parse ua st) = empty_menu"
      and "showResults (validateAndProceed lookup JSON_parse ua st)"
      and "error (validateAndProceed lookup JSON_parse ua st) = js ''''"
      by (simp_all add: st')
    show "results_display ua (validateAndProceed lookup JSON_parse ua st) =
              Inr (Some \<lparr>panel_heading = Some (JStr (js '''')), panel_information = None,
                         panel_allergies = (if ua = [] then None else Some (join (js '', '') ua)),
                         panel_sections = []\<rparr>)"
      unfolding st' using assms(1)
      by (simp add: eval_display truthy_def empty_menu_def)
  }
  {
    assume "\<not> falsy r \<and> JSON_parse (the r) = Inl e"
    then have st': "validateAndProceed lookup JSON_parse ua st =
        st\<lparr>isProcessing := False,
           error := js ''Unable to parse response from AI service. Please try again.'',
           menuData := JNull, showResults := False\<rparr>"
      by (simp add: eq)
    show "error (validateAndProceed lookup JSON_parse ua st)
              = js ''Unable to parse response from AI service. Please try again.''"
      and "menuData (validateAndProceed lookup JSON_parse ua st) = JNull"
      and "\<not> showResults (validateAndProceed lookup JSON_parse ua st)"
      and "\<not> isProcessing (validateAndProceed lookup JSON_parse ua st)"
      and "results_display ua (validateAndProceed lookup JSON_parse ua st) = Inr None"
      by (simp_all add: st' results_display_def)
  }
  {
    assume "\<not> falsy r \<and> JSON_parse (the r) = Inr v"
    then have st': "validateAndProceed lookup JSON_parse ua st =
        st\<lparr>isProcessing := False, error := js '''', menuData := v, showResults := True\<rparr>"
      by (simp add: eq)
    show "error (validateAndProceed lookup JSON_parse ua st) = js ''''"
      and "menuData (validateAndProceed lookup JSON_parse ua st) = v"
      and "showResults (validateAndProceed lookup JSON_parse ua st)"
      by (simp_all add: st')
    {
      assume "\<not> json_truthy v"
      then show "results_display ua (validateAndProceed lookup JSON_parse ua st) = Inr None"
        by (simp add: st' results_display_def)
    }
    {
      assume "json_truthy v \<and> (\<forall>foods. get_prop v (js ''foods'') \<noteq> Inr (Some (JArr foods)))"
      with assms(1)
      show "\<exists>x. results_display ua (validateAndProceed lookup JSON_parse ua st) = Inl x
                 \<and> error_name x = js ''TypeError''"
        unfolding st' by (intro display_not_array) (simp_all add: truthy_def)
    }
  }
qed

theorem empty_response_and_parse_failure_witness:
  "selectedOption diner_page = js ''text'' \<and> truthy (trim (restaurantName diner_page))
   \<and> lookup_with configured_env (answering None) (trim (restaurantName diner_page)) [js ''peanuts'']
       = Inr None
   \<and> falsy None \<and> JSON_parse_examples emptyResponse = Inr empty_menu
   \<and> menuData (validateAndProceed (lookup_with configured_env (answering None)) JSON_parse_examples
                  [js ''peanuts''] diner_page) = empty_menu
   \<and> results_display [js ''peanuts'']
        (validateAndProceed (lookup_with configured_env (answering None))
                  JSON_parse_examples [js ''peanuts''] diner_page) =
       Inr (Some \<lparr>panel_heading = Some (JStr (js '''')), panel_information = None,
                  panel_allergies = Some (js ''peanuts''), panel_sections = []\<rparr>)
   \<and> lookup_with configured_env (answering (Some not_json_text)) (trim (restaurantName diner_page))
        [js ''peanuts''] = Inr (Some not_json_text)
   \<and> \<not> falsy (Some not_json_text)
   \<and> JSON_parse_examples not_json_text = Inl (JsError (js ''SyntaxError'') (js ''Unexpected token''))
   \<and> error (validateAndProceed (lookup_with configured_env (answering (Some not_json_text)))
               JSON_parse_examples [js ''peanuts''] diner_page)
       = js ''Unable to parse response from AI service. Please try again.''
   \<and> results_display [js ''peanuts'']
        (validateAndProceed (lookup_with configured_env (answering (Some not_json_text)))
               JSON_parse_examples [js ''peanuts''] diner_page) = Inr None
   \<and> lookup_with configured_env (answering (Some no_foods_text)) (trim (restaurantName diner_page))
        [js ''peanuts''] = Inr (Some no_foods_text)
   \<and> \<not> falsy (Some no_foods_text) \<and> JSON_parse_examples no_foods_text = Inr no_foods_menu
   \<and> json_truthy no_foods_menu
   \<and> (\<forall>foods. get_prop no_foods_menu (js ''foods'') \<noteq> Inr (Some (JArr foods)))
   \<and> (\<exists>x. results_display [js ''peanuts'']
              (validateAndProceed (lookup_with configured_env (answering (Some no_foods_text)))
                 JSON_parse_examples [js ''peanuts''] diner_page) = Inl x
          \<and> error_name x = js ''TypeError'')"
proof -
  have h: "selectedOption diner_page = js ''text''" "truthy (trim (restaurantName diner_page))"
    "lookup_with configured_env (answering None) (trim (restaurantName diner_page)) [js ''peanuts'']
       = Inr None"
    "lookup_with configured_env (answering (Some not_json_text)) (trim (restaurantName diner_page))
        [js ''peanuts''] = Inr (Some not_json_text)"
    "lookup_with configured_env (answering (Some no_foods_text)) (trim (restaurantName diner_page))
        [js ''peanuts''] = Inr (Some no_foods_text)"
    by (simp_all add: eval_lookup diner_page_def eval_js)
  have p: "JSON_parse_examples emptyResponse = Inr empty_menu"
    "JSON_parse_examples not_json_text = Inl (JsError (js ''SyntaxError'') (js ''Unexpected token''))"
    "JSON_parse_examples no_foods_text = Inr no_foods_menu"
    "falsy None" "\<not> falsy (Some not_json_text)" "\<not> falsy (Some no_foods_text)"
    "json_truthy no_foods_menu"
    "\<forall>foods. get_prop no_foods_menu (js ''foods'') \<noteq> Inr (Some (JArr foods))"
    by (simp_all add: JSON_parse_examples_def emptyResponse_def not_json_text_def unknown_tier_text_def
        no_foods_text_def object_info_text_def no_foods_menu_def falsy_def)
  from h p
    empty_response_and_parse_failure
      [of diner_page "lookup_with configured_env (answering None)" "[js ''peanuts'']" None
          JSON_parse_examples]
    empty_response_and_parse_failure
      [of diner_page "lookup_with configured_env (answering (Some not_json_text))" "[js ''peanuts'']"
          "Some not_json_text" JSON_parse_examples "JsError (js ''SyntaxError'') (js ''Unexpected token'')"]
    empty_response_and_parse_failure
      [of diner_page "lookup_with configured_env (answering (Some no_foods_text))" "[js ''peanuts'']"
          "Some no_foods_text" JSON_parse_examples _ no_foods_menu]
  show ?thesis
    by simp
qed

text \<open>
  C6 as stated fails: a response that is JSON but has no \<open>foods\<close> raises no error; it
  is stored, the results are switched on, and rendering the display throws.
\<close>

theorem wrong_shape_counterexample:
  "JSON_parse_examples no_foods_text = Inr no_foods_menu
   \<and> get_prop no_foods_menu (js ''foods'') = Inr None
   \<and> error (validateAndProceed (lookup_with configured_env (answering (Some no_foods_text)))
              JSON_parse_examples [js ''peanuts''] diner_page) = js ''''
   \<and> showResults (validateAndProceed (lookup_with configured_env (answering (Some no_foods_text)))
              JSON_parse_examples [js ''peanuts''] diner_page)
   \<and> results_display [js ''peanuts'']
        (validateAndProceed (lookup_with configured_env (answering (Some no_foods_text)))
              JSON_parse_examples [js ''peanuts''] diner_page)
       = Inl (TypeError (js ''Cannot read properties of undefined''))"
  by (simp add: validateAndProceed_def eval_display eval_lookup eval_examples eval_js)

section \<open>The HTTP client\<close>

lemma default_timeout:
  "timeout (apiClient env) = 30000" "timeout (new_ApiClient env b None) = 30000"
  "timeout (new_ApiClient env b (Some ms)) = ms"
  by (simp_all add: apiClient_def new_ApiClient_def DEFAULT_TIMEOUT_def)

text \<open>
  What \<open>request\<close> resolves to, case by case.  A call on which \<open>fetch\<close> has not settled
  when the timeout expires is aborted, and resolves to \<open>TIMEOUT\<close>.
\<close>

lemma request_timeout:
  assumes "timeout client \<le> fst (net (baseUrl client @ path) (fetch_init opts))"
  shows "request client net path opts =
           Some (Inr (Failure \<lparr>error_kind = js ''TIMEOUT'', message = js ''Request timed out'',
                                code = None, api_details = NoDetails\<rparr>))"
proof -
  from assms
  have "fetch_with_abort net (timeout client) (baseUrl client @ path) (fetch_init opts)
          = Fails AbortError"
    by (simp add: fetch_with_abort_def case_prod_unfold)
  then show ?thesis
    by (simp add: request_def request_try_def Let_def request_catch_def AbortError_def)
qed

text \<open>A \<open>fetch\<close> that rejects with another error resolves to \<open>NETWORK_ERROR\<close>.\<close>

lemma request_network_error:
  assumes "net (baseUrl client @ path) (fetch_init opts) = (latency, Fails e)"
    and "latency < timeout client" and "error_name e \<noteq> js ''AbortError''"
  shows "request client net path opts =
           Some (Inr (Failure \<lparr>error_kind = js ''NETWORK_ERROR'',
                                message = (if error_message e = [] then js ''Network request failed''
                                           else error_message e),
                                code = None, api_details = ErrorDetails e\<rparr>))"
  using assms
  by (simp add: request_def request_try_def Let_def request_catch_def fetch_with_abort_def
      truthy_def)

text \<open>
  A response whose status is not ok resolves to \<open>HTTP_ERROR\<close> with the status as its code
  and the parsed body as its details, or the empty object when the body does not parse.
\<close>

lemma request_http_error:
  assumes "net (baseUrl client @ path) (fetch_init opts) = (latency, Resolves response)"
    and "latency < timeout client" and "\<not> ok response" and "response_body response \<noteq> Stalled"
  shows "request client net path opts =
           Some (Inr (Failure
             \<lparr>error_kind = js ''HTTP_ERROR'',
              message = js ''Request failed with status '' @ number_toString (status response),
              code = Some (status response),
              api_details = JsonDetails (case response_body response of Json d \<Rightarrow> d
                                         | _ \<Rightarrow> JObj [])\<rparr>))"
  using assms
  by (cases "response_body response")
     (simp_all add: request_def request_try_def Let_def fetch_with_abort_def)

text \<open>An ok response resolves to a success with the parsed body.\<close>

lemma request_success:
  assumes "net (baseUrl client @ path) (fetch_init opts) = (latency, Resolves response)"
    and "latency < timeout client" and "ok response" and "response_body response = Json d"
  shows "request client net path opts = Some (Inr (Success d))"
  using assms
  by (simp add: request_def request_try_def Let_def fetch_with_abort_def)

text \<open>An ok response whose body does not parse goes to the \<open>catch\<close> block.\<close>

lemma request_unparsable:
  assumes "net (baseUrl client @ path) (fetch_init opts) = (latency, Resolves response)"
    and "latency < timeout client" and "ok response" and "response_body response = Unparsable e"
    and "error_name e \<noteq> js ''AbortError''"
  shows "request client net path opts =
           Some (Inr (Failure \<lparr>error_kind = js ''NETWORK_ERROR'',
                                message = (if error_message e = [] then js ''Network request failed''
                                           else error_message e),
                                code = None, api_details = ErrorDetails e\<rparr>))"
  using assms
  by (simp add: request_def request_try_def Let_def request_catch_def fetch_with_abort_def
      truthy_def)

text \<open>\<open>request\<close> never rejects.\<close>

lemma request_never_rejects: "request client net path opts \<noteq> Some (Inl e)"
  by (simp add: request_def request_catch_def split: option.splits sum.splits)

text \<open>
  It settles unless \<open>fetch\<close> resolves in time with a response whose body never finishes:
  the timer is cleared when \<open>fetch\<close> resolves, and nothing ends the wait for the body.
\<close>

lemma request_unsettled_iff:
  "request client net path opts = None \<longleftrightarrow>
     (\<exists>latency response.
        net (baseUrl client @ path) (fetch_init opts) = (latency, Resolves response)
        \<and> latency < timeout client \<and> response_body response = Stalled)"
proof (cases "net (baseUrl client @ path) (fetch_init opts)")
  case (Pair latency outcome)
  show ?thesis
  proof (cases outcome)
    case (Fails e)
    with Pair show ?thesis
      by (simp add: request_def request_try_def Let_def fetch_with_abort_def request_catch_def)
  next
    case (Resolves response)
    with Pair show ?thesis
      by (cases "response_body response")
         (simp_all add: request_def request_try_def Let_def fetch_with_abort_def request_catch_def
            AbortError_def)
  qed
qed

lemma concrete_requests:
  "request (apiClient unset_env) slow (js ''/menu/history/7'') get_history =
       Some (Inr (Failure \<lparr>error_kind = js ''TIMEOUT'', message = js ''Request timed out'',
                            code = None, api_details = NoDetails\<rparr>))"
  "request (apiClient unset_env) unavailable (js ''/menu/history/7'') get_history =
       Some (Inr (Failure \<lparr>error_kind = js ''HTTP_ERROR'',
                            message = js ''Request failed with status 503'',
                            code = Some 503, api_details = JsonDetails (JObj [])\<rparr>))"
proof -
  have n: "number_toString 503 = js ''503''"
    by (simp add: number_toString.simps js_def)
  show "request (apiClient unset_env) slow (js ''/menu/history/7'') get_history =
       Some (Inr (Failure \<lparr>error_kind = js ''TIMEOUT'', message = js ''Request timed out'',
                            code = None, api_details = NoDetails\<rparr>))"
    by (rule request_timeout) (simp add: default_timeout slow_def)
  show "request (apiClient unset_env) unavailable (js ''/menu/history/7'') get_history =
       Some (Inr (Failure \<lparr>error_kind = js ''HTTP_ERROR'',
                            message = js ''Request failed with status 503'',
                            code = Some 503, api_details = JsonDetails (JObj [])\<rparr>))"
    by (simp add: request_def request_try_def fetch_with_abort_def unavailable_def apiClient_def
        new_ApiClient_def DEFAULT_TIMEOUT_def n js_append)
qed

text \<open>
  C9.  The claim that every call through \<open>request\<close> resolves, under a timeout of 30 seconds
  enforced by cancellation, fails on a response whose body never finishes.  The client
  built without a timeout has one of 30000 milliseconds; the network sends the head of a
  200 response after 120 milliseconds, so \<open>fetch\<close> resolves and \<open>clearTimeout\<close> runs;
  \<open>response.json()\<close> then waits for the body with no timer left to abort it, and the
  promise that \<open>request\<close> returned never settles: it neither resolves nor rejects.
\<close>

theorem request_never_settles_on_stalled_body:
  "timeout (apiClient unset_env) = 30000
   \<and> head_only (baseUrl (apiClient unset_env) @ js ''/menu/history/7'') (fetch_init get_history)
       = (120, Resolves \<lparr>ok = True, status = 200, response_body = Stalled\<rparr>)
   \<and> fetch_with_abort head_only (timeout (apiClient unset_env))
        (baseUrl (apiClient unset_env) @ js ''/menu/history/7'') (fetch_init get_history)
       = Resolves \<lparr>ok = True, status = 200, response_body = Stalled\<rparr>
   \<and> request (apiClient unset_env) head_only (js ''/menu/history/7'') get_history = None"
  by (simp add: request_def request_try_def fetch_with_abort_def head_only_def apiClient_def
      new_ApiClient_def DEFAULT_TIMEOUT_def)

lemma call_method_throws:
  "\<exists>e. call_method v k = Inl e \<and> error_name e = js ''TypeError''"
  by (cases v) (simp_all add: call_method_def TypeError_def)

text \<open>
  C10.  When an upload completes with a status outside 200..299, \<open>uploadFile\<close> resolves
  with the error \<open>PARSE_ERROR\<close>, never \<open>UPLOAD_ERROR\<close>: either \<open>JSON.parse\<close> throws,
  or calling \<open>catch\<close> on the value it returns throws a \<open>TypeError\<close>, and the \<open>catch\<close>
  block resolves the promise with what was thrown.
\<close>

theorem upload_failure_is_parse_error:
  assumes "xhr_status < 200 \<or> 300 \<le> xhr_status"
  shows "\<exists>e. uploadFile JSON_parse (Load xhr_status txt) =
            Inr (Failure \<lparr>error_kind = js ''PARSE_ERROR'', message = js ''Failed to parse response'',
                          code = None, api_details = ErrorDetails e\<rparr>)
          \<and> (JSON_parse txt = Inl e
              \<or> (\<exists>v. JSON_parse txt = Inr v \<and> call_method v (js ''catch'') = Inl e
                       \<and> error_name e = js ''TypeError''))"
proof (cases "JSON_parse txt")
  case (Inl e)
  with assms show ?thesis
    by (auto simp: uploadFile_def load_try_def)
next
  case (Inr v)
  obtain e where "call_method v (js ''catch'') = Inl e" "error_name e = js ''TypeError''"
    using call_method_throws by blast
  with Inr assms show ?thesis
    by (auto simp: uploadFile_def load_try_def)
qed

theorem upload_failure_is_parse_error_witness:
  "((404::nat) < 200 \<or> (300::nat) \<le> 404)
   \<and> uploadFile JSON_parse_examples (Load 404 no_foods_text) =
       Inr (Failure \<lparr>error_kind = js ''PARSE_ERROR'', message = js ''Failed to parse response'',
                     code = None,
                     api_details = ErrorDetails (TypeError (js ''catch is not a function''))\<rparr>)
   \<and> uploadFile JSON_parse_examples (Load 500 not_json_text) =
       Inr (Failure \<lparr>error_kind = js ''PARSE_ERROR'', message = js ''Failed to parse response'',
                     code = None,
                     api_details = ErrorDetails (JsError (js ''SyntaxError'') (js ''Unexpected token''))\<rparr>)"
  using upload_failure_is_parse_error [of 404 JSON_parse_examples no_foods_text]
    upload_failure_is_parse_error [of 500 JSON_parse_examples not_json_text]
  by (auto simp: JSON_parse_examples_def no_foods_text_def not_json_text_def emptyResponse_def
      unknown_tier_text_def object_info_text_def no_foods_menu_def call_method_def js_append)

end
